theory Spec2Isabelle
  imports Main
begin

section \<open>Python values and string helpers\<close>

text \<open>
  The development embeds parts of \<^verbatim>\<open>conda_build/utils.py\<close> and
  \<^verbatim>\<open>conda_build/render.py\<close>.  Exceptions are values: every function that can
  raise returns \<open>error + 'a\<close> with \<open>Inl\<close> carrying the exception.  The two
  exceptions of the solver carry their \<^verbatim>\<open>packages\<close> attribute, when they have one,
  and their \<^verbatim>\<open>message\<close>; \<open>OtherError\<close> stands for any exception that the
  source neither raises itself nor catches.
\<close>

datatype error =
    InvalidVersionSpec
  | ValueError
  | IndexError
  | TypeError
  | OverflowError
  | RuntimeError
  | UnsatisfiableError "string list option" string
  | DependencyNeedsBuildingError "string list option" string
  | SystemExit
  | CondaBuildUserError
  | OtherError string

text \<open>Python's \<^verbatim>\<open>sep.join(xs)\<close>.\<close>

fun join :: "string \<Rightarrow> string list \<Rightarrow> string" where
  "join sep [] = []"
| "join sep [x] = x"
| "join sep (x # y # ys) = x @ sep @ join sep (y # ys)"

text \<open>Python's \<^verbatim>\<open>s.split(c)\<close> for a one-character separator: never an empty list.\<close>

fun split_on :: "char \<Rightarrow> string \<Rightarrow> string list" where
  "split_on c [] = [[]]"
| "split_on c (x # xs) =
     (if x = c then [] # split_on c xs
      else (x # hd (split_on c xs)) # tl (split_on c xs))"

definition is_space :: "char \<Rightarrow> bool" where
  "is_space c = (c \<in> set [CHR '' '', CHR 0x09, CHR 0x0A, CHR 0x0B, CHR 0x0C, CHR 0x0D])"

text \<open>Python's \<^verbatim>\<open>s.split()\<close>: the maximal runs of non-blank characters.\<close>

fun split_ws_loop :: "string \<Rightarrow> string \<Rightarrow> string list" where
  "split_ws_loop cur [] = (if cur = [] then [] else [cur])"
| "split_ws_loop cur (x # xs) =
     (if is_space x then (if cur = [] then split_ws_loop [] xs else cur # split_ws_loop [] xs)
      else split_ws_loop (cur @ [x]) xs)"

definition split_ws :: "string \<Rightarrow> string list" where
  "split_ws s = split_ws_loop [] s"

definition rstrip :: "string \<Rightarrow> string" where
  "rstrip s = rev (dropWhile is_space (rev s))"

definition strip :: "string \<Rightarrow> string" where
  "strip s = rstrip (dropWhile is_space s)"

definition is_digit :: "char \<Rightarrow> bool" where
  "is_digit c = (48 \<le> (of_char c :: nat) \<and> (of_char c :: nat) \<le> 57)"

definition is_lower :: "char \<Rightarrow> bool" where
  "is_lower c = (97 \<le> (of_char c :: nat) \<and> (of_char c :: nat) \<le> 122)"

definition is_upper :: "char \<Rightarrow> bool" where
  "is_upper c = (65 \<le> (of_char c :: nat) \<and> (of_char c :: nat) \<le> 90)"

definition lower_char :: "char \<Rightarrow> char" where
  "lower_char c = (if is_upper c then char_of ((of_char c :: nat) + 32) else c)"

definition lower :: "string \<Rightarrow> string" where
  "lower s = map lower_char s"

text \<open>\<^verbatim>\<open>s.isdigit()\<close> and \<^verbatim>\<open>s.isalpha()\<close> on ASCII text: false on the empty string.\<close>

definition isdigit :: "string \<Rightarrow> bool" where
  "isdigit s = (s \<noteq> [] \<and> list_all is_digit s)"

definition isalpha :: "string \<Rightarrow> bool" where
  "isalpha s = (s \<noteq> [] \<and> list_all (\<lambda>c. is_lower c \<or> is_upper c) s)"

definition endswith :: "string \<Rightarrow> string \<Rightarrow> bool" where
  "endswith s suf = (length suf \<le> length s \<and> drop (length s - length suf) s = suf)"

definition startswith :: "string \<Rightarrow> string \<Rightarrow> bool" where
  "startswith s pre = (take (length pre) s = pre)"

text \<open>Python's \<^verbatim>\<open>s.replace(a, b)\<close> for one-character \<open>a\<close> and \<open>b\<close>.\<close>

definition replace_char :: "char \<Rightarrow> char \<Rightarrow> string \<Rightarrow> string" where
  "replace_char a b s = map (\<lambda>c. if c = a then b else c) s"

text \<open>Decimal rendering \<^verbatim>\<open>str(n)\<close> and reading \<^verbatim>\<open>int(s)\<close> of a non-negative integer.\<close>

definition digit_char :: "nat \<Rightarrow> char" where
  "digit_char d = char_of (48 + d)"

fun str_nat :: "nat \<Rightarrow> string" where
  "str_nat n = (if n < 10 then [digit_char n] else str_nat (n div 10) @ [digit_char (n mod 10)])"

declare str_nat.simps [simp del]

definition digit_val :: "char \<Rightarrow> nat" where
  "digit_val c = (of_char c :: nat) - 48"

definition int_of_digits :: "string \<Rightarrow> nat" where
  "int_of_digits s = foldl (\<lambda>a c. 10 * a + digit_val c) 0 s"


text \<open>Running a fallible function over a list stops at the first exception.\<close>

fun try_map :: "('a \<Rightarrow> error + 'b) \<Rightarrow> 'a list \<Rightarrow> error + 'b list" where
  "try_map f [] = Inr []"
| "try_map f (x # xs) =
     (case f x of Inl e \<Rightarrow> Inl e
      | Inr y \<Rightarrow> (case try_map f xs of Inl e \<Rightarrow> Inl e | Inr ys \<Rightarrow> Inr (y # ys)))"

section \<open>Version ordering of the conda library\<close>

text \<open>
  \<^verbatim>\<open>utils.py\<close> imports \<^verbatim>\<open>VersionOrder\<close> from the conda library
  (\<^verbatim>\<open>conda.models.version\<close>); it is not part of this repository.  The
  definitions of this section follow that class: a version string is lower-cased, checked
  against \<^verbatim>\<open>^[\*\.\+!_0-9a-z]+$\<close>, split at the epoch mark \<^verbatim>\<open>!\<close> and the local
  mark \<^verbatim>\<open>+\<close>, then at dots; every component is cut into runs of digits, of stars and
  of other characters; digit runs become integers, \<^verbatim>\<open>post\<close> becomes infinity,
  \<^verbatim>\<open>dev\<close> becomes \<^verbatim>\<open>DEV\<close>, and a component that does not start with a digit gets
  the fill value 0 in front.
\<close>

datatype vitem = VInt nat | VStr string | VInf

record version_order =
  vo_version :: "vitem list list"
  vo_local :: "vitem list list"

definition version_check_char :: "char \<Rightarrow> bool" where
  "version_check_char c =
     (c \<in> set [CHR ''*'', CHR ''.'', CHR ''+'', CHR ''!'', CHR ''_''] \<or> is_digit c \<or> is_lower c)"

definition version_check :: "string \<Rightarrow> bool" where
  "version_check s = (s \<noteq> [] \<and> list_all version_check_char s)"

definition cclass :: "char \<Rightarrow> nat" where
  "cclass c = (if is_digit c then 0 else if c = CHR ''*'' then 1 else 2)"

text \<open>\<^verbatim>\<open>version_split_re.findall\<close>: the maximal runs of one character class.\<close>

fun version_split :: "string \<Rightarrow> string list" where
  "version_split [] = []"
| "version_split (x # xs) =
     (case version_split xs of
        [] \<Rightarrow> [[x]]
      | r # rs \<Rightarrow> if cclass (hd r) = cclass x then (x # r) # rs else [x] # r # rs)"

definition convert_item :: "string \<Rightarrow> vitem" where
  "convert_item c =
     (if isdigit c then VInt (int_of_digits c)
      else if c = ''post'' then VInf
      else if c = ''dev'' then VStr ''DEV''
      else VStr c)"

definition convert_component :: "string \<Rightarrow> error + vitem list" where
  "convert_component s =
     (let c = version_split s in
      if c = [] then Inl InvalidVersionSpec
      else Inr (if is_digit (hd s) then map convert_item c else VInt 0 # map convert_item c))"

definition VersionOrder :: "string \<Rightarrow> error + version_order" where
  "VersionOrder vstr =
     (let version = lower (rstrip (strip vstr)) in
      if version = [] then Inl InvalidVersionSpec
      else
        let invalid = \<not> version_check version;
            dash = (invalid \<and> CHR ''-'' \<in> set version \<and> CHR ''_'' \<notin> set version);
            version = (if dash then replace_char CHR ''-'' CHR ''_'' version else version);
            invalid = (if dash then \<not> version_check version else invalid)
        in
        if invalid then Inl InvalidVersionSpec
        else
          let parts = split_on CHR ''!'' version in
          if length parts > 2 then Inl InvalidVersionSpec
          else if length parts = 2 \<and> \<not> isdigit (hd parts) then Inl InvalidVersionSpec
          else
            let epoch = (if length parts = 1 then [''0''] else [hd parts]);
                vl = split_on CHR ''+'' (last parts)
            in
            if length vl > 2 then Inl InvalidVersionSpec
            else if hd vl = [] then Inl InvalidVersionSpec
            else
              let loc = (if length vl = 1 then []
                         else split_on CHR ''.'' (replace_char CHR ''_'' CHR ''.'' (vl ! 1)));
                  v0 = hd vl;
                  split_version =
                    (if last v0 = CHR ''_''
                     then (let sv = split_on CHR ''.'' (replace_char CHR ''_'' CHR ''.'' (butlast v0))
                           in butlast sv @ [last sv @ ''_''])
                     else split_on CHR ''.'' (replace_char CHR ''_'' CHR ''.'' v0))
              in
              (case try_map convert_component (epoch @ split_version) of
                 Inl e \<Rightarrow> Inl e
               | Inr ver \<Rightarrow>
                   (case try_map convert_component loc of
                      Inl e \<Rightarrow> Inl e
                    | Inr lc \<Rightarrow> Inr \<lparr>vo_version = ver, vo_local = lc\<rparr>)))"

text \<open>\<^verbatim>\<open>itertools.zip_longest(xs, ys, fillvalue=d)\<close>.\<close>

fun zip_longest :: "'a \<Rightarrow> 'a list \<Rightarrow> 'a list \<Rightarrow> ('a \<times> 'a) list" where
  "zip_longest d [] [] = []"
| "zip_longest d (x # xs) [] = (x, d) # zip_longest d xs []"
| "zip_longest d [] (y # ys) = (d, y) # zip_longest d [] ys"
| "zip_longest d (x # xs) (y # ys) = (x, y) # zip_longest d xs ys"

text \<open>Python's \<^verbatim>\<open><\<close> on two strings: lexicographic on the code points.\<close>

fun str_lt :: "string \<Rightarrow> string \<Rightarrow> bool" where
  "str_lt [] [] = False"
| "str_lt [] (y # ys) = True"
| "str_lt (x # xs) [] = False"
| "str_lt (x # xs) (y # ys) = ((of_char x :: nat) < of_char y \<or> (x = y \<and> str_lt xs ys))"

definition is_str :: "vitem \<Rightarrow> bool" where
  "is_str v = (case v of VStr _ \<Rightarrow> True | _ \<Rightarrow> False)"

text \<open>\<^verbatim>\<open>c1 < c2\<close> for two items of the same kind (numbers, or strings).\<close>

fun item_lt :: "vitem \<Rightarrow> vitem \<Rightarrow> bool" where
  "item_lt (VInt a) (VInt b) = (a < b)"
| "item_lt (VInt a) VInf = True"
| "item_lt (VStr a) (VStr b) = str_lt a b"
| "item_lt _ _ = False"

text \<open>
  The loops of \<^verbatim>\<open>VersionOrder.__lt__\<close>; \<open>None\<close> means that the loop ran to its
  end without returning.
\<close>

fun lt_items :: "(vitem \<times> vitem) list \<Rightarrow> bool option" where
  "lt_items [] = None"
| "lt_items ((c1, c2) # r) =
     (if c1 = c2 then lt_items r
      else if is_str c1 then (if \<not> is_str c2 then Some True else Some (item_lt c1 c2))
      else if is_str c2 then Some False
      else Some (item_lt c1 c2))"

fun lt_comps :: "(vitem list \<times> vitem list) list \<Rightarrow> bool option" where
  "lt_comps [] = None"
| "lt_comps ((v1, v2) # r) =
     (case lt_items (zip_longest (VInt 0) v1 v2) of Some b \<Rightarrow> Some b | None \<Rightarrow> lt_comps r)"

definition vo_lt :: "version_order \<Rightarrow> version_order \<Rightarrow> bool" where
  "vo_lt a b =
     (case lt_comps (zip_longest [] (vo_version a) (vo_version b)) of
        Some r \<Rightarrow> r
      | None \<Rightarrow>
          (case lt_comps (zip_longest [] (vo_local a) (vo_local b)) of
             Some r \<Rightarrow> r
           | None \<Rightarrow> False))"

section \<open>Pin expressions (\<^verbatim>\<open>utils.py\<close>)\<close>

text \<open>\<^verbatim>\<open>str(v)\<close> of an item of a parsed version.\<close>

definition str_item :: "vitem \<Rightarrow> string" where
  "str_item v = (case v of VInt n \<Rightarrow> str_nat n | VStr s \<Rightarrow> s | VInf \<Rightarrow> ''inf'')"

text \<open>
  \<^verbatim>\<open>_increment(version, alpha_ver)\<close>.  \<^verbatim>\<open>int\<close> of a string item raises
  \<^verbatim>\<open>ValueError\<close>, which the source catches; \<^verbatim>\<open>ord\<close> of a string that is not one
  character raises \<^verbatim>\<open>TypeError\<close>, and \<^verbatim>\<open>int\<close> of infinity raises
  \<^verbatim>\<open>OverflowError\<close>; neither is caught.
\<close>

definition increment :: "vitem \<Rightarrow> bool \<Rightarrow> error + string" where
  "increment version alpha_ver =
     (case version of
        VInt n \<Rightarrow> Inr (str_nat (n + 1) @ (if alpha_ver then ''a'' else ''.0a0''))
      | VInf \<Rightarrow> Inl OverflowError
      | VStr s \<Rightarrow>
          (case s of
             [c] \<Rightarrow> Inr [char_of ((of_char c :: nat) + 1)]
           | _ \<Rightarrow> Inl TypeError))"

text \<open>The loop that flattens the parsed version; every item of it is a list.\<close>

fun flatten_loop ::
  "nat \<Rightarrow> vitem list list \<Rightarrow> nat option \<times> vitem list \<Rightarrow> nat option \<times> vitem list" where
  "flatten_loop idx [] acc = acc"
| "flatten_loop idx (item # rest) (np, flat) = flatten_loop (Suc idx) rest (Some idx, flat @ item)"

text \<open>The inner loop over \<^verbatim>\<open>flat_list[:pin]\<close>, building \<^verbatim>\<open>versions[p_idx]\<close>.\<close>

fun pin_loop ::
  "nat \<Rightarrow> nat \<Rightarrow> nat option \<Rightarrow> vitem list \<Rightarrow> nat \<Rightarrow> vitem list \<Rightarrow> string \<Rightarrow> error + string" where
  "pin_loop p_idx pin np flat v_idx [] acc = Inr acc"
| "pin_loop p_idx pin np flat v_idx (v # vs) acc =
     (case (if p_idx = 1 \<and> v_idx = pin - 1
            then increment v (isalpha (str_item (flat ! min pin (length flat - 1))))
            else Inr (str_item v)) of
        Inl e \<Rightarrow> Inl e
      | Inr s \<Rightarrow>
          pin_loop p_idx pin np flat (Suc v_idx) vs
            (acc @ s @ (if Some v_idx \<noteq> np then ''.'' else [])))"

definition pin_version :: "nat \<Rightarrow> nat option \<Rightarrow> nat option \<Rightarrow> vitem list \<Rightarrow> error + string" where
  "pin_version p_idx pin np flat =
     (case pin of
        None \<Rightarrow> Inr []
      | Some n \<Rightarrow>
          if n = 0 then Inr []
          else
            (case pin_loop p_idx n np flat 0 (take n flat) [] of
               Inl e \<Rightarrow> Inl e
             | Inr s \<Rightarrow>
                 if s = [] then Inl IndexError
                 else Inr (if last s = CHR ''.'' then butlast s else s)))"

text \<open>
  The two entries of \<^verbatim>\<open>versions\<close> when \<^verbatim>\<open>apply_pin_expressions\<close> reaches its
  \<^verbatim>\<open>return\<close>: the lower bound with its \<^verbatim>\<open>>=\<close> and the upper bound with its
  \<^verbatim>\<open><\<close>, each empty when there is no such bound.  An empty pin stands for both of
  Python's \<^verbatim>\<open>None\<close> and \<^verbatim>\<open>""\<close>, which the source treats alike.
\<close>

definition strip_star :: "string \<Rightarrow> string" where
  "strip_star version =
     (if endswith version ''.*'' then take (length version - 2) version
      else if endswith version ''*'' then take (length version - 1) version
      else version)"

definition pin_bounds :: "string \<Rightarrow> string \<Rightarrow> string \<Rightarrow> error + string \<times> string" where
  "pin_bounds version min_pin max_pin =
     (let pins0 = (if min_pin \<noteq> [] then Some (length (split_on CHR ''.'' min_pin)) else None);
          pins1 = (if max_pin \<noteq> [] then Some (length (split_on CHR ''.'' max_pin)) else None)
      in
      case VersionOrder version of
        Inl e \<Rightarrow> Inl e
      | Inr vo \<Rightarrow>
          let parsed_version = tl (vo_version vo);
              (nesting_position, flat_list) = flatten_loop 0 parsed_version (None, []);
              pins1 = (if max_pin \<noteq> [] \<and> length (split_on CHR ''.'' max_pin) > length flat_list
                       then Some (length flat_list) else pins1)
          in
          (case pin_version 0 pins0 nesting_position flat_list of
             Inl e \<Rightarrow> Inl e
           | Inr lo \<Rightarrow>
               (case pin_version 1 pins1 nesting_position flat_list of
                  Inl e \<Rightarrow> Inl e
                | Inr up \<Rightarrow>
                    (case (if lo \<noteq> []
                           then (case VersionOrder (strip_star version) of
                                   Inl e \<Rightarrow> Inl e
                                 | Inr version_order \<Rightarrow>
                                     (case VersionOrder lo of
                                        Inl e \<Rightarrow> Inl e
                                      | Inr lo_order \<Rightarrow>
                                          Inr (if vo_lt version_order lo_order
                                               then ''>='' @ version else ''>='' @ lo)))
                           else Inr lo) of
                       Inl e \<Rightarrow> Inl e
                     | Inr v0 \<Rightarrow> Inr (v0, if up \<noteq> [] then ''<'' @ up else up)))))"

definition apply_pin_expressions :: "string \<Rightarrow> string \<Rightarrow> string \<Rightarrow> error + string" where
  "apply_pin_expressions version min_pin max_pin =
     (case pin_bounds version min_pin max_pin of
        Inl e \<Rightarrow> Inl e
      | Inr (v0, v1) \<Rightarrow> Inr (join '','' (filter (\<lambda>v. v \<noteq> []) [v0, v1])))"

section \<open>Requirement specs and the exact-pin simplifier\<close>

text \<open>
  \<^verbatim>\<open>spec_needing_star_re\<close> of \<^verbatim>\<open>utils.py\<close> is
  \<^verbatim>\<open>([\w\d\.\-\_]+)\s+((?<![><=])[\w\d\.\-\_]+?(?!\*))(\s+[\w\d\.\_]+)?$\<close>,
  used with \<^verbatim>\<open>match\<close>, which anchors it at the start.  Its character classes and
  \<^verbatim>\<open>\s\<close> are disjoint, so a match is forced: group 1 is the longest run of name
  characters at the start, then the longest run of blanks, then group 2 is the longest
  run of name characters (a shorter one is followed by a name character, where neither
  group 3 nor \<^verbatim>\<open>$\<close> can match), not followed by a star; then either blanks and a
  run of build characters up to the end (group 3), or the end at once.  \<^verbatim>\<open>$\<close> also
  matches before a final newline.  The result holds the three groups and the text after
  the match.
\<close>

definition is_word :: "char \<Rightarrow> bool" where
  "is_word c = (is_digit c \<or> is_lower c \<or> is_upper c \<or> c = CHR ''_'')"

definition is_name_char :: "char \<Rightarrow> bool" where
  "is_name_char c = (is_word c \<or> c = CHR ''.'' \<or> c = CHR ''-'')"

definition is_build_char :: "char \<Rightarrow> bool" where
  "is_build_char c = (is_word c \<or> c = CHR ''.'')"

definition at_end :: "string \<Rightarrow> bool" where
  "at_end s = (s = [] \<or> s = [CHR 0x0A])"

definition spec_needing_star_match ::
  "string \<Rightarrow> (string \<times> string \<times> string option \<times> string) option" where
  "spec_needing_star_match spec =
     (let g1 = takeWhile is_name_char spec;
          r1 = dropWhile is_name_char spec;
          ws1 = takeWhile is_space r1;
          r2 = dropWhile is_space r1;
          g2 = takeWhile is_name_char r2;
          r3 = dropWhile is_name_char r2;
          ws2 = takeWhile is_space r3;
          r4 = dropWhile is_space r3;
          g3 = takeWhile is_build_char r4;
          r5 = dropWhile is_build_char r4
      in
      if g1 = [] \<or> ws1 = [] \<or> g2 = [] then None
      else if r3 \<noteq> [] \<and> hd r3 = CHR ''*'' then None
      else if ws2 \<noteq> [] \<and> g3 \<noteq> [] \<and> at_end r5 then Some (g1, g2, Some (ws2 @ g3), r5)
      else if at_end r3 then Some (g1, g2, None, r3)
      else None)"

text \<open>
  \<^verbatim>\<open>ensure_valid_spec\<close> on a string spec (the specs of a requirements section are
  strings).  \<^verbatim>\<open>sub\<close> rewrites the match, which starts at the first character, and
  keeps the text after it.
\<close>

definition ensure_valid_spec :: "string \<Rightarrow> string" where
  "ensure_valid_spec spec =
     (case spec_needing_star_match spec of
        Some (g1, g2, None, rest) \<Rightarrow>
          if (g1 = ''python'' \<or> g1 = ''numpy'') \<and> g2 = ''x.x'' then g1 @ '' '' @ g2 @ rest
          else if CHR ''*'' \<notin> set spec then g1 @ '' '' @ g2 @ ''.*'' @ rest
          else spec
      | _ \<Rightarrow> spec)"

text \<open>
  A \<^verbatim>\<open>defaultdict(list)\<close> keeps its keys in the order of their first insertion: an
  association list.
\<close>

fun dict_append :: "('k \<times> 'v list) list \<Rightarrow> 'k \<Rightarrow> 'v \<Rightarrow> ('k \<times> 'v list) list" where
  "dict_append [] k v = [(k, [v])]"
| "dict_append ((k', vs) # d) k v =
     (if k' = k then (k', vs @ [v]) # d else (k', vs) # dict_append d k v)"

text \<open>
  The first loop of \<^verbatim>\<open>_simplify_to_exact_constraints\<close>: the name of a spec with
  the list of what follows the name.  A blank spec has no first part:
  \<^verbatim>\<open>spec_parts[0]\<close> raises \<^verbatim>\<open>IndexError\<close>.
\<close>

fun collect_deps ::
  "(string \<times> string list list) list \<Rightarrow> string list \<Rightarrow> error + (string \<times> string list list) list" where
  "collect_deps deps_dict [] = Inr deps_dict"
| "collect_deps deps_dict (dep # deps) =
     (case split_ws (ensure_valid_spec dep) of
        [] \<Rightarrow> Inl IndexError
      | name # rest \<Rightarrow> collect_deps (dict_append deps_dict name rest) deps)"

text \<open>
  The test that puts \<^verbatim>\<open>dep\<close> into \<^verbatim>\<open>exact_pins\<close>: a version and a build
  string, no \<^verbatim>\<open>></\<close>, \<^verbatim>\<open><\<close> or \<^verbatim>\<open>*\<close> in the version and no \<^verbatim>\<open>*\<close> in the
  build string.
\<close>

definition is_exact_pin :: "string list \<Rightarrow> bool" where
  "is_exact_pin dep =
     (length dep > 1 \<and>
      \<not> (CHR ''>'' \<in> set (dep ! 0) \<or> CHR ''<'' \<in> set (dep ! 0) \<or> CHR ''*'' \<in> set (dep ! 0)
         \<or> CHR ''*'' \<in> set (dep ! 1)))"

text \<open>The body of the second loop: what one name adds to \<^verbatim>\<open>deps_list\<close>.\<close>

definition simplify_name :: "string \<Rightarrow> string list list \<Rightarrow> error + string list" where
  "simplify_name name vals =
     (let exact_pins = filter is_exact_pin vals in
      if length vals = 1 \<and> \<not> list_ex (\<lambda>d. d \<noteq> []) vals then Inr [name]
      else if exact_pins \<noteq> [] then
        (if \<not> list_all (\<lambda>pin. pin = hd exact_pins) exact_pins then Inl ValueError
         else Inr [join '' '' (name # hd exact_pins)])
      else Inr (map (\<lambda>dep. join '' '' (name # dep)) (filter (\<lambda>dep. dep \<noteq> []) vals)))"

fun simplify_names :: "(string \<times> string list list) list \<Rightarrow> error + string list" where
  "simplify_names [] = Inr []"
| "simplify_names ((name, vals) # d) =
     (case simplify_name name vals of
        Inl e \<Rightarrow> Inl e
      | Inr xs \<Rightarrow> (case simplify_names d of Inl e \<Rightarrow> Inl e | Inr ys \<Rightarrow> Inr (xs @ ys)))"

text \<open>\<^verbatim>\<open>deps_list\<close> of one section, from its \<^verbatim>\<open>deps\<close>.\<close>

definition simplify_deps :: "string list \<Rightarrow> error + string list" where
  "simplify_deps deps =
     (case collect_deps [] deps of Inl e \<Rightarrow> Inl e | Inr deps_dict \<Rightarrow> simplify_names deps_dict)"

text \<open>
  The requirements of a job: \<^verbatim>\<open>metadata.meta["requirements"]\<close>, a dictionary from
  the section name to the list of specs.
\<close>

type_synonym requirements = "string \<rightharpoonup> string list"

text \<open>\<^verbatim>\<open>utils.ensure_list(requirements.get(section, []))\<close>.\<close>

definition get_list :: "requirements \<Rightarrow> string \<Rightarrow> string list" where
  "get_list requirements section_name = (case requirements section_name of None \<Rightarrow> [] | Some xs \<Rightarrow> xs)"

definition simplify_section :: "requirements \<Rightarrow> string \<Rightarrow> error + requirements" where
  "simplify_section requirements section_name =
     (case simplify_deps (get_list requirements section_name) of
        Inl e \<Rightarrow> Inl e
      | Inr deps_list \<Rightarrow>
          Inr (if section_name \<in> dom requirements \<and> deps_list \<noteq> []
               then requirements(section_name \<mapsto> deps_list) else requirements))"

fun simplify_sections :: "string list \<Rightarrow> requirements \<Rightarrow> error + requirements" where
  "simplify_sections [] requirements = Inr requirements"
| "simplify_sections (s # ss) requirements =
     (case simplify_section requirements s of
        Inl e \<Rightarrow> Inl e
      | Inr r \<Rightarrow> simplify_sections ss r)"

text \<open>\<^verbatim>\<open>_simplify_to_exact_constraints\<close>, on the requirements of the job.\<close>

definition simplify_to_exact_constraints :: "requirements \<Rightarrow> error + requirements" where
  "simplify_to_exact_constraints requirements =
     simplify_sections [''build'', ''host'', ''run''] requirements"

subsection \<open>The simplifier in the words of the requirement\<close>

text \<open>
  The parts of a spec, the names of a list of specs in the order of their first
  occurrence, and what follows the name in each occurrence of one name.
\<close>

definition spec_parts :: "string \<Rightarrow> string list" where
  "spec_parts dep = split_ws (ensure_valid_spec dep)"

definition add_new :: "'a list \<Rightarrow> 'a \<Rightarrow> 'a list" where
  "add_new acc x = (if x \<in> set acc then acc else acc @ [x])"

definition first_occurrences :: "'a list \<Rightarrow> 'a list" where
  "first_occurrences xs = foldl add_new [] xs"

definition dep_names :: "string list \<Rightarrow> string list" where
  "dep_names deps = first_occurrences (map (\<lambda>d. hd (spec_parts d)) deps)"

definition occurrences :: "string \<Rightarrow> string list \<Rightarrow> string list list" where
  "occurrences name deps =
     map (\<lambda>d. tl (spec_parts d)) (filter (\<lambda>d. hd (spec_parts d) = name) deps)"

text \<open>Two exact occurrences of one name that differ.\<close>

definition conflicting :: "string list list \<Rightarrow> bool" where
  "conflicting occs =
     list_ex (\<lambda>d. list_ex (\<lambda>d'. is_exact_pin d \<and> is_exact_pin d' \<and> d \<noteq> d') occs) occs"

text \<open>
  What one name comes to when there is no conflict: the bare name for a single
  occurrence with nothing after the name; else the first exact occurrence if there is
  one; else every occurrence with something after the name.
\<close>

definition simplified :: "string \<Rightarrow> string list list \<Rightarrow> string list" where
  "simplified name occs =
     (if occs = [[]] then [name]
      else (case filter is_exact_pin occs of
              pin # _ \<Rightarrow> [join '' '' (name # pin)]
            | [] \<Rightarrow> map (\<lambda>dep. join '' '' (name # dep)) (filter (\<lambda>dep. dep \<noteq> []) occs)))"

text \<open>
  The reading of the requirement that keeps every qualified occurrence unless all
  occurrences are exact.
\<close>

definition retained_unless_all_exact :: "string \<Rightarrow> string list list \<Rightarrow> error + string list" where
  "retained_unless_all_exact name occs =
     (if list_all is_exact_pin occs then
        (if conflicting occs then Inl ValueError else Inr [join '' '' (name # hd occs)])
      else if occs = [[]] then Inr [name]
      else Inr (map (\<lambda>dep. join '' '' (name # dep)) (filter (\<lambda>dep. dep \<noteq> []) occs)))"

text \<open>The list stored under a key of an association list, empty when the key is absent.\<close>

definition lookup_vals :: "('k \<times> 'v list) list \<Rightarrow> 'k \<Rightarrow> 'v list" where
  "lookup_vals d k = (case map_of d k of None \<Rightarrow> [] | Some vs \<Rightarrow> vs)"

section \<open>Build jobs, the resolver and the run-export propagator (\<^verbatim>\<open>render.py\<close>)\<close>

text \<open>
  A value of a variant is a string, or something else (a nested mapping, a list), which
  \<^verbatim>\<open>" ".join\<close> refuses with \<^verbatim>\<open>TypeError\<close>.  A variant keeps the order of its keys.
\<close>

datatype variant_value = Str string | NonStr

type_synonym variant = "(string \<times> variant_value) list"

text \<open>
  The requirements of an entry of \<^verbatim>\<open>outputs\<close> are a dictionary or a plain list;
  \<^verbatim>\<open>utils.expand_reqs\<close> turns the list into a dictionary.
\<close>

datatype reqs_entry = ReqDict requirements | ReqList "string list"

definition expand_reqs :: "reqs_entry \<Rightarrow> requirements" where
  "expand_reqs reqs_entry =
     (case reqs_entry of
        ReqDict d \<Rightarrow> d
      | ReqList original \<Rightarrow>
          if original \<noteq> [] then [''host'' \<mapsto> original, ''run'' \<mapsto> original] else Map.empty)"

record output_entry =
  out_name :: "string option"
  out_requirements :: "reqs_entry option"

text \<open>A resolved package record, as the solver returns it.\<close>

record prec =
  prec_name :: string
  prec_version :: string
  prec_build :: string
  prec_channel :: string

text \<open>
  The build job.  \<^verbatim>\<open>MetaData\<close> is a class of \<^verbatim>\<open>metadata.py\<close>, which is not
  among the sources; the record holds what the functions of \<^verbatim>\<open>render.py\<close> read from
  it: \<^verbatim>\<open>m.meta["requirements"]\<close>, the \<^verbatim>\<open>outputs\<close> section, \<^verbatim>\<open>m.name()\<close>,
  \<^verbatim>\<open>m.version()\<close>, the properties \<^verbatim>\<open>is_cross\<close>, \<^verbatim>\<open>noarch\<close>,
  \<^verbatim>\<open>noarch_python\<close>, \<^verbatim>\<open>build_is_host\<close> and \<^verbatim>\<open>python_version_independent\<close>
  (read before the requirements are changed), the values
  \<^verbatim>\<open>build/ignore_run_exports_from\<close> and \<^verbatim>\<open>build/ignore_run_exports\<close>, and
  \<^verbatim>\<open>m.config.variant\<close>.
\<close>

record metadata =
  meta_requirements :: requirements
  meta_outputs :: "output_entry list"
  pkg_name :: string
  pkg_version :: string
  is_cross :: bool
  noarch :: bool
  noarch_python :: bool
  build_is_host :: bool
  python_version_independent :: bool
  ignore_run_exports_from :: "string list"
  ignore_run_exports :: "string list"
  config_variant :: variant

text \<open>
  What lies outside the sources: the solver \<^verbatim>\<open>environ.get_package_records\<close>, called
  with the environment name and the set of specs (the other arguments are configuration);
  \<^verbatim>\<open>MetaData.get_depends_top_and_out\<close>; the run-exports that a resolved package
  declares, a dictionary from the category to the specs, whether fetched from the channel
  data or from the package; and the test
  \<^verbatim>\<open>re.search\<close> of \<^verbatim>\<open>_categorize_deps\<close> (is the name followed by blanks and
  the first character of a version), whose pattern is built from the name of the spec.
\<close>

record ext =
  get_package_records :: "string \<Rightarrow> string set \<Rightarrow> error + prec list"
  get_depends_top_and_out :: "metadata \<Rightarrow> string \<Rightarrow> string list"
  run_exports_of :: "prec \<Rightarrow> (string \<times> string list) list"
  spec_has_version :: "string \<Rightarrow> string \<Rightarrow> bool"

text \<open>
  A Python \<^verbatim>\<open>set\<close> of specs is a list without duplicates.  The order in which
  Python iterates over a set is not specified; the model fixes one, and no theorem
  below depends on it.
\<close>

definition py_set :: "string list \<Rightarrow> string list" where
  "py_set xs = remdups xs"

text \<open>\<^verbatim>\<open>sub in s\<close> for strings, \<^verbatim>\<open>req.split(" ")[0]\<close> and \<^verbatim>\<open>dash_or_under.sub("", s)\<close>.\<close>

definition contains :: "string \<Rightarrow> string \<Rightarrow> bool" where
  "contains sub s = list_ex (\<lambda>i. take (length sub) (drop i s) = sub) [0..<Suc (length s)]"

definition first_token :: "string \<Rightarrow> string" where
  "first_token req = takeWhile (\<lambda>c. c \<noteq> CHR '' '') req"

definition dash_or_under_sub :: "string \<Rightarrow> string" where
  "dash_or_under_sub s = filter (\<lambda>c. c \<noteq> CHR ''-'' \<and> c \<noteq> CHR ''_'') s"

subsection \<open>\<^verbatim>\<open>_categorize_deps\<close>\<close>

text \<open>The loop over \<^verbatim>\<open>variant.items()\<close> for one spec.\<close>

fun categorize_variant ::
  "ext \<Rightarrow> string \<Rightarrow> string \<Rightarrow> variant \<Rightarrow> string list \<Rightarrow> error + string list" where
  "categorize_variant ex spec_name spec [] dependencies = Inr dependencies"
| "categorize_variant ex spec_name spec ((key, val) # rest) dependencies =
     (if dash_or_under_sub key = dash_or_under_sub spec_name
         \<and> \<not> spec_has_version ex spec_name spec
      then (case val of
              Str v \<Rightarrow>
                categorize_variant ex spec_name spec rest (dependencies @ [join '' '' [spec_name, v]])
            | NonStr \<Rightarrow> Inl TypeError)
      else categorize_variant ex spec_name spec rest dependencies)"

text \<open>
  The loop over the specs; the state is \<^verbatim>\<open>(subpackages, dependencies,
  pass_through_deps)\<close>.  The exclusion pattern is the predicate
  \<^verbatim>\<open>exclude_pattern.match\<close>, or \<open>None\<close>.
\<close>

fun categorize_loop ::
  "ext \<Rightarrow> metadata \<Rightarrow> (string \<Rightarrow> bool) option \<Rightarrow> variant \<Rightarrow> string list \<Rightarrow>
   string list \<times> string list \<times> string list \<Rightarrow> error + string list \<times> string list \<times> string list" where
  "categorize_loop ex m exclude_pattern var [] acc = Inr acc"
| "categorize_loop ex m exclude_pattern var (spec # specs) (subpackages, dependencies, pass_through_deps) =
     (if (case exclude_pattern of None \<Rightarrow> True | Some p \<Rightarrow> \<not> p spec) then
        (case split_ws spec of
           [] \<Rightarrow> Inl IndexError
         | spec_name # _ \<Rightarrow>
             let subs = map (\<lambda>entry. join '' '' [spec_name, pkg_version m])
                          (filter (\<lambda>entry. out_name entry = Some spec_name) (meta_outputs m));
                 is_subpackage = (subs \<noteq> []);
                 dependencies1 = (if \<not> is_subpackage then dependencies @ [spec] else dependencies)
             in
             (case categorize_variant ex spec_name spec var dependencies1 of
                Inl e \<Rightarrow> Inl e
              | Inr dependencies2 \<Rightarrow>
                  categorize_loop ex m exclude_pattern var specs
                    (subpackages @ subs, dependencies2, pass_through_deps)))
      else categorize_loop ex m exclude_pattern var specs
             (subpackages, dependencies, pass_through_deps @ [spec]))"

definition categorize_deps ::
  "ext \<Rightarrow> metadata \<Rightarrow> string list \<Rightarrow> (string \<Rightarrow> bool) option \<Rightarrow> variant \<Rightarrow>
   error + string list \<times> string list \<times> string list" where
  "categorize_deps ex m specs exclude_pattern var =
     categorize_loop ex m exclude_pattern var specs ([], [], [])"

subsection \<open>\<^verbatim>\<open>get_env_dependencies\<close>\<close>

text \<open>The replacement of \<^verbatim>\<open>x.x\<close> by the variant's version, for \<open>build\<close> and \<open>host\<close>.\<close>

fun no_xx_specs :: "variant \<Rightarrow> string list \<Rightarrow> error + string list" where
  "no_xx_specs var [] = Inr []"
| "no_xx_specs var (spec # specs) =
     (case (if contains '' x.x'' spec
            then (case split_ws spec of
                    [] \<Rightarrow> Inl IndexError
                  | name # _ \<Rightarrow>
                      (case map_of var name of
                         None \<Rightarrow> Inr (join '' '' [name, []])
                       | Some (Str v) \<Rightarrow> Inr (join '' '' [name, v])
                       | Some NonStr \<Rightarrow> Inl TypeError))
            else Inr spec) of
        Inl e \<Rightarrow> Inl e
      | Inr s \<Rightarrow> (case no_xx_specs var specs of Inl e \<Rightarrow> Inl e | Inr ss \<Rightarrow> Inr (s # ss)))"

definition package_record_to_requirement :: "prec \<Rightarrow> string" where
  "package_record_to_requirement p = prec_name p @ '' '' @ prec_version p @ '' '' @ prec_build p"

text \<open>
  The two exceptions that \<^verbatim>\<open>get_env_dependencies\<close> catches, and the message it
  keeps: the joined \<^verbatim>\<open>packages\<close> when the exception has that attribute, else its
  \<^verbatim>\<open>message\<close>.
\<close>

definition solver_signal :: "error \<Rightarrow> bool" where
  "solver_signal e =
     (case e of UnsatisfiableError _ _ \<Rightarrow> True | DependencyNeedsBuildingError _ _ \<Rightarrow> True | _ \<Rightarrow> False)"

definition unsat_message :: "error \<Rightarrow> string" where
  "unsat_message e =
     (case e of
        UnsatisfiableError (Some packages) _ \<Rightarrow> join '', '' packages
      | UnsatisfiableError None message \<Rightarrow> message
      | DependencyNeedsBuildingError (Some packages) _ \<Rightarrow> join '', '' packages
      | DependencyNeedsBuildingError None message \<Rightarrow> message
      | _ \<Rightarrow> [])"

text \<open>
  The specs of the environment after the \<^verbatim>\<open>x.x\<close> replacement, categorized: what
  \<^verbatim>\<open>get_env_dependencies\<close> holds when it calls the solver.
\<close>

definition env_categorized ::
  "ext \<Rightarrow> metadata \<Rightarrow> string \<Rightarrow> variant \<Rightarrow> (string \<Rightarrow> bool) option \<Rightarrow>
   error + string list \<times> string list \<times> string list" where
  "env_categorized ex m env var exclude_pattern =
     (case (if env = ''build'' \<or> env = ''host''
            then no_xx_specs var (get_depends_top_and_out ex m env)
            else Inr (get_depends_top_and_out ex m env)) of
        Inl e \<Rightarrow> Inl e
      | Inr specs \<Rightarrow> categorize_deps ex m specs exclude_pattern var)"

text \<open>The value returned, from the resolved records and the diagnostic.\<close>

definition env_result ::
  "metadata \<Rightarrow> string \<Rightarrow> string list \<Rightarrow> string list \<Rightarrow> prec list \<Rightarrow> string option \<Rightarrow>
   string list \<times> prec list \<times> string option" where
  "env_result m env subpackages pass_through_deps precs unsat =
     (let specs = map package_record_to_requirement precs;
          all_specs = specs @ subpackages @ pass_through_deps
      in (if all_specs \<noteq> [] then all_specs else get_list (meta_requirements m) env, precs, unsat))"

definition get_env_dependencies ::
  "ext \<Rightarrow> metadata \<Rightarrow> string \<Rightarrow> variant \<Rightarrow> (string \<Rightarrow> bool) option \<Rightarrow> bool \<Rightarrow> string list \<Rightarrow>
   error + string list \<times> prec list \<times> string option" where
  "get_env_dependencies ex m env var exclude_pattern permit_unsatisfiable_variants extra_specs =
     (case env_categorized ex m env var exclude_pattern of
        Inl e \<Rightarrow> Inl e
      | Inr (subpackages, dependencies, pass_through_deps) \<Rightarrow>
          (case get_package_records ex env (set dependencies \<union> set extra_specs) of
             Inl e \<Rightarrow>
               if solver_signal e then
                 (if permit_unsatisfiable_variants
                  then Inr (env_result m env subpackages pass_through_deps [] (Some (unsat_message e)))
                  else Inl e)
               else Inl e
           | Inr precs \<Rightarrow> Inr (env_result m env subpackages pass_through_deps precs None)))"

subsection \<open>\<^verbatim>\<open>_filter_run_exports\<close>, \<^verbatim>\<open>merge_dicts_of_lists\<close> and \<^verbatim>\<open>get_upstream_pins\<close>\<close>

definition ignored_spec :: "string list \<Rightarrow> string \<Rightarrow> bool" where
  "ignored_spec ignore_list spec =
     list_ex (\<lambda>ignore_spec. ignore_spec = ''*'' \<or> spec = ignore_spec
                \<or> startswith spec (ignore_spec @ '' '')) ignore_list"

fun filter_agent ::
  "string list \<Rightarrow> string \<Rightarrow> string list \<Rightarrow> (string \<times> string list) list \<Rightarrow> (string \<times> string list) list" where
  "filter_agent ignore_list agent [] filtered_specs = filtered_specs"
| "filter_agent ignore_list agent (spec # specs_list) filtered_specs =
     filter_agent ignore_list agent specs_list
       (if \<not> ignored_spec ignore_list spec then dict_append filtered_specs agent spec
        else filtered_specs)"

fun filter_run_exports_loop ::
  "string list \<Rightarrow> (string \<times> string list) list \<Rightarrow> (string \<times> string list) list \<Rightarrow> (string \<times> string list) list" where
  "filter_run_exports_loop ignore_list [] filtered_specs = filtered_specs"
| "filter_run_exports_loop ignore_list ((agent, specs_list) # specs) filtered_specs =
     filter_run_exports_loop ignore_list specs (filter_agent ignore_list agent specs_list filtered_specs)"

definition filter_run_exports ::
  "(string \<times> string list) list \<Rightarrow> string list \<Rightarrow> (string \<times> string list) list" where
  "filter_run_exports specs ignore_list = filter_run_exports_loop ignore_list specs []"

definition merge_dicts_of_lists ::
  "(string \<times> string list) list \<Rightarrow> (string \<times> string list) list \<Rightarrow> (string \<times> string list) list" where
  "merge_dicts_of_lists dol1 dol2 =
     map (\<lambda>k. (k, lookup_vals dol1 k @ lookup_vals dol2 k)) (remdups (map fst dol1 @ map fst dol2))"

fun upstream_loop ::
  "ext \<Rightarrow> string list \<Rightarrow> string list \<Rightarrow> prec list \<Rightarrow> (string \<times> string list) list \<Rightarrow> (string \<times> string list) list" where
  "upstream_loop ex ignore_pkgs_list ignore_list [] additional_specs = additional_specs"
| "upstream_loop ex ignore_pkgs_list ignore_list (p # precs) additional_specs =
     upstream_loop ex ignore_pkgs_list ignore_list precs
       (if list_ex (\<lambda>req. prec_name p = first_token req) ignore_pkgs_list then additional_specs
        else (let specs = filter_run_exports (run_exports_of ex p) ignore_list
              in if specs \<noteq> [] then merge_dicts_of_lists additional_specs specs
                 else additional_specs))"

definition get_upstream_pins :: "ext \<Rightarrow> metadata \<Rightarrow> prec list \<Rightarrow> string \<Rightarrow> (string \<times> string list) list" where
  "get_upstream_pins ex m precs env =
     (let env_specs = get_list (meta_requirements m) env;
          explicit_specs = map first_token env_specs;
          precs1 = filter (\<lambda>p. prec_name p \<in> set explicit_specs) precs;
          python = (if python_version_independent m \<and> \<not> noarch m then [''python''] else []);
          ignore_pkgs_list = ignore_run_exports_from m @ python;
          ignore_list = ignore_run_exports m @ python
      in upstream_loop ex ignore_pkgs_list ignore_list precs1 [])"

definition read_upstream_pin_files ::
  "ext \<Rightarrow> metadata \<Rightarrow> string \<Rightarrow> bool \<Rightarrow> (string \<Rightarrow> bool) option \<Rightarrow> string list \<Rightarrow>
   error + string list \<times> string option \<times> (string \<times> string list) list" where
  "read_upstream_pin_files ex m env permit_unsatisfiable_variants exclude_pattern extra_specs =
     (case get_env_dependencies ex m env (config_variant m) exclude_pattern
             permit_unsatisfiable_variants extra_specs of
        Inl e \<Rightarrow> Inl e
      | Inr (deps, precs, unsat) \<Rightarrow>
          Inr (if py_set deps \<noteq> [] then py_set deps else get_list (meta_requirements m) env,
               unsat,
               get_upstream_pins ex m precs env))"

subsection \<open>\<^verbatim>\<open>add_upstream_pins\<close>\<close>

text \<open>The first entry of \<^verbatim>\<open>outputs\<close> whose name is the name of the job, by its index.\<close>

definition matching_output_index :: "metadata \<Rightarrow> nat option" where
  "matching_output_index m =
     (case filter (\<lambda>i. out_name (meta_outputs m ! i) = Some (pkg_name m))
             [0..<length (meta_outputs m)] of
        [] \<Rightarrow> None
      | i # _ \<Rightarrow> Some i)"

text \<open>
  The local variable \<^verbatim>\<open>requirements\<close> of \<^verbatim>\<open>add_upstream_pins\<close> is a reference:
  to \<^verbatim>\<open>m.meta["requirements"]\<close> (\<open>None\<close> below), or, once the host requirements
  were taken from an output of the same name, to the requirements of that output
  (\<open>Some i\<close>).
\<close>

definition requirements_var :: "metadata \<Rightarrow> nat option \<Rightarrow> requirements" where
  "requirements_var m out_idx =
     (case out_idx of
        None \<Rightarrow> meta_requirements m
      | Some i \<Rightarrow>
          expand_reqs (case out_requirements (meta_outputs m ! i) of
                         None \<Rightarrow> ReqDict Map.empty
                       | Some r \<Rightarrow> r))"

definition set_requirements_var :: "metadata \<Rightarrow> nat option \<Rightarrow> requirements \<Rightarrow> metadata" where
  "set_requirements_var m out_idx r =
     (case out_idx of
        None \<Rightarrow> m\<lparr>meta_requirements := r\<rparr>
      | Some i \<Rightarrow>
          m\<lparr>meta_outputs :=
              (meta_outputs m)[i := (meta_outputs m ! i)\<lparr>out_requirements := Some (ReqDict r)\<rparr>]\<rparr>)"

text \<open>
  The cross-compiling branch up to \<^verbatim>\<open>host_reqs.extend(...)\<close>: the host list is
  stored in the requirements of the job; when it is empty and an output has the name
  of the job, the host list of that output is used instead; the strong run-exports of
  the build environment are then appended in place.
\<close>

definition extend_host_reqs :: "metadata \<Rightarrow> string list \<Rightarrow> metadata \<times> nat option" where
  "extend_host_reqs m strong =
     (let host_reqs = get_list (meta_requirements m) ''host'';
          m1 = m\<lparr>meta_requirements := (meta_requirements m)(''host'' \<mapsto> host_reqs)\<rparr>;
          out_idx = (if host_reqs = [] then matching_output_index m1 else None);
          requirements = requirements_var m1 out_idx;
          host_reqs1 = get_list requirements ''host''
      in (set_requirements_var m1 out_idx (requirements(''host'' \<mapsto> host_reqs1 @ strong)), out_idx))"

text \<open>
  The end of \<^verbatim>\<open>add_upstream_pins\<close>: the run sets, the loop that stores every
  non-empty \<^verbatim>\<open>deps\<close> and the assignment to \<^verbatim>\<open>m.meta["requirements"]\<close>.
  \<^verbatim>\<open>build_deps\<close> is \<open>None\<close> when it is Python's \<^verbatim>\<open>None\<close>.
\<close>

definition store_section :: "string \<Rightarrow> string list \<Rightarrow> requirements \<Rightarrow> requirements" where
  "store_section section_name deps requirements =
     (if deps \<noteq> [] then requirements(section_name \<mapsto> deps) else requirements)"

definition store_deps ::
  "metadata \<Rightarrow> nat option \<Rightarrow> string list option \<Rightarrow> string list \<Rightarrow> string list \<Rightarrow> string list \<Rightarrow> metadata" where
  "store_deps m out_idx build_deps host_deps extra_run_specs extra_run_constrained_specs =
     (let requirements = requirements_var m out_idx;
          run_deps = py_set (extra_run_specs @ get_list requirements ''run'');
          run_constrained_deps =
            py_set (extra_run_constrained_specs @ get_list requirements ''run_constrained'');
          requirements1 =
            store_section ''run_constrained'' run_constrained_deps
              (store_section ''run'' run_deps
                (store_section ''host'' host_deps
                  (store_section ''build'' (case build_deps of None \<Rightarrow> [] | Some d \<Rightarrow> d)
                     requirements)))
      in (set_requirements_var m out_idx requirements1)\<lparr>meta_requirements := requirements1\<rparr>)"

text \<open>
  \<^verbatim>\<open>add_upstream_pins\<close>.  In the two branches for a build environment that is also
  the host, the source assigns \<^verbatim>\<open>set(build_deps or []).update(...)\<close> to
  \<^verbatim>\<open>build_deps\<close>; \<^verbatim>\<open>set.update\<close> returns \<^verbatim>\<open>None\<close>.  The result holds the
  job with its new requirements, \<^verbatim>\<open>build_unsat\<close> and \<^verbatim>\<open>host_unsat\<close> (the empty
  list of the branch without a host environment is \<open>None\<close>).
\<close>

definition add_upstream_pins ::
  "ext \<Rightarrow> metadata \<Rightarrow> bool \<Rightarrow> (string \<Rightarrow> bool) option \<Rightarrow> string list \<Rightarrow>
   error + metadata \<times> string option \<times> string option" where
  "add_upstream_pins ex m permit_unsatisfiable_variants exclude_pattern extra_specs =
     (case read_upstream_pin_files ex m ''build'' permit_unsatisfiable_variants exclude_pattern
             (if is_cross m then [] else extra_specs) of
        Inl e \<Rightarrow> Inl e
      | Inr (build_deps, build_unsat, from_build) \<Rightarrow>
          if is_cross m then
            (case extend_host_reqs m (lookup_vals from_build ''strong'') of
               (m2, out_idx) \<Rightarrow>
                 (case read_upstream_pin_files ex m2 ''host'' permit_unsatisfiable_variants
                         exclude_pattern extra_specs of
                    Inl e \<Rightarrow> Inl e
                  | Inr (host_deps, host_unsat, from_host) \<Rightarrow>
                      let extra_run_specs =
                            (if noarch m \<or> noarch_python m
                             then py_set (lookup_vals from_host ''noarch'')
                             else py_set (lookup_vals from_host ''strong''
                                           @ lookup_vals from_host ''weak''
                                           @ lookup_vals from_build ''strong''));
                          extra_run_constrained_specs =
                            (if noarch m \<or> noarch_python m then []
                             else py_set (lookup_vals from_host ''strong_constrains''
                                           @ lookup_vals from_host ''weak_constrains''
                                           @ lookup_vals from_build ''strong_constrains''))
                      in Inr (store_deps m2 out_idx (Some build_deps) host_deps
                                extra_run_specs extra_run_constrained_specs,
                              build_unsat, host_unsat)))
          else
            (let extra_run_specs =
                   (if noarch m \<or> noarch_python m
                    then (if build_is_host m then py_set (lookup_vals from_build ''noarch'') else [])
                    else (if build_is_host m
                          then py_set (lookup_vals from_build ''strong'' @ lookup_vals from_build ''weak'')
                          else py_set (lookup_vals from_build ''strong'')));
                 extra_run_constrained_specs =
                   (if noarch m \<or> noarch_python m then []
                    else (if build_is_host m
                          then py_set (lookup_vals from_build ''strong_constrains''
                                        @ lookup_vals from_build ''weak_constrains'')
                          else py_set (lookup_vals from_build ''strong_constrains'')));
                 build_deps1 = (if build_is_host m then None else
                                  (if noarch m \<or> noarch_python m then Some (py_set build_deps)
                                   else Some build_deps));
                 host_deps =
                   (if \<not> (noarch m \<or> noarch_python m) \<and> \<not> build_is_host m
                    then py_set (lookup_vals from_build ''strong'') else [])
             in Inr (store_deps m None build_deps1 host_deps
                       extra_run_specs extra_run_constrained_specs,
                     build_unsat, None)))"

subsection \<open>A small job and its collaborators, for the examples\<close>

text \<open>
  The solver resolves every environment to the compiler package \<^verbatim>\<open>gcc 9.3 h0\<close>, which
  declares the weak run-export \<^verbatim>\<open>libgcc\<close> and the strong run-export
  \<^verbatim>\<open>libstdcxx\<close>; the specs of an environment are those of the job's own section.  The
  job requires \<^verbatim>\<open>gcc\<close> in \<open>build\<close>.
\<close>

definition gcc_prec :: prec where
  "gcc_prec = \<lparr>prec_name = ''gcc'', prec_version = ''9.3'', prec_build = ''h0'',
               prec_channel = ''defaults''\<rparr>"

definition gcc_ext :: ext where
  "gcc_ext =
     \<lparr>get_package_records = (\<lambda>env specs. Inr [gcc_prec]),
      get_depends_top_and_out = (\<lambda>m env. get_list (meta_requirements m) env),
      run_exports_of = (\<lambda>p. [(''weak'', [''libgcc'']), (''strong'', [''libstdcxx''])]),
      spec_has_version = (\<lambda>spec_name spec. False)\<rparr>"

definition gcc_job :: metadata where
  "gcc_job =
     \<lparr>meta_requirements = [''build'' \<mapsto> [''gcc'']], meta_outputs = [],
      pkg_name = ''pkg'', pkg_version = ''1.0'',
      is_cross = False, noarch = False, noarch_python = False, build_is_host = True,
      python_version_independent = False,
      ignore_run_exports_from = [], ignore_run_exports = [], config_variant = []\<rparr>"

text \<open>The same job with a host section, so that it is cross-compiling.\<close>

definition gcc_cross_job :: metadata where
  "gcc_cross_job =
     gcc_job\<lparr>meta_requirements := [''build'' \<mapsto> [''gcc''], ''host'' \<mapsto> [''zlib'']],
             is_cross := True, build_is_host := False\<rparr>"

text \<open>A solver that finds no solution.\<close>

definition unsat_ext :: ext where
  "unsat_ext = gcc_ext\<lparr>get_package_records :=
     (\<lambda>env specs. Inl (UnsatisfiableError None ''nothing provides gcc''))\<rparr>"

section \<open>Reading the run-exports of a package (\<^verbatim>\<open>_read_specs_from_package\<close>)\<close>

text \<open>
  What \<^verbatim>\<open>pkg_loc\<close> stands for on disk: nothing (an empty or missing path), an
  extracted package directory, or a package archive, each with its files by their
  path inside the package.  \<^verbatim>\<open>utils.package_has_file\<close> returns the content of a file
  of an archive, or \<^verbatim>\<open>False\<close>.
\<close>

datatype pkg_loc = Missing | Directory "string \<rightharpoonup> string" | PkgFile "string \<rightharpoonup> string"

text \<open>
  Text mode translates \<^verbatim>\<open>\r\n\<close> and \<^verbatim>\<open>\r\<close> to \<^verbatim>\<open>\n\<close>; \<^verbatim>\<open>readlines\<close> cuts
  after every \<^verbatim>\<open>\n\<close>.  The line ends are left out here, since the source strips each
  line on the right at once.
\<close>

fun universal_newlines :: "string \<Rightarrow> string" where
  "universal_newlines [] = []"
| "universal_newlines [c] = (if c = CHR 0x0D then [CHR 0x0A] else [c])"
| "universal_newlines (c # d # s) =
     (if c = CHR 0x0D \<and> d = CHR 0x0A then CHR 0x0A # universal_newlines s
      else if c = CHR 0x0D then CHR 0x0A # universal_newlines (d # s)
      else c # universal_newlines (d # s))"

definition drop_last_empty :: "string list \<Rightarrow> string list" where
  "drop_last_empty ls = (if ls \<noteq> [] \<and> last ls = [] then butlast ls else ls)"

definition readlines :: "string \<Rightarrow> string list" where
  "readlines text = drop_last_empty (split_on CHR 0x0A (universal_newlines text))"

text \<open>
  \<^verbatim>\<open>str.splitlines()\<close> on ASCII text: it cuts at \<^verbatim>\<open>\n\<close>, \<^verbatim>\<open>\r\<close>, \<^verbatim>\<open>\r\n\<close>,
  \<^verbatim>\<open>\v\<close>, \<^verbatim>\<open>\f\<close> and the separators \<^verbatim>\<open>\x1c\<close> to \<^verbatim>\<open>\x1e\<close>.
\<close>

definition is_line_boundary :: "char \<Rightarrow> bool" where
  "is_line_boundary c = (c \<in> set [CHR 0x0A, CHR 0x0D, CHR 0x0B, CHR 0x0C, CHR 0x1C, CHR 0x1D, CHR 0x1E])"

fun splitlines_loop :: "string \<Rightarrow> string \<Rightarrow> string list" where
  "splitlines_loop cur [] = (if cur = [] then [] else [cur])"
| "splitlines_loop cur [c] = (if is_line_boundary c then [cur] else [cur @ [c]])"
| "splitlines_loop cur (c # d # s) =
     (if c = CHR 0x0D \<and> d = CHR 0x0A then cur # splitlines_loop [] s
      else if is_line_boundary c then cur # splitlines_loop [] (d # s)
      else splitlines_loop (cur @ [c]) (d # s))"

definition splitlines :: "string \<Rightarrow> string list" where
  "splitlines s = splitlines_loop [] s"

text \<open>\<^verbatim>\<open>s.rsplit("-", 2)[0]\<close>: the string without its last two fields, when it has them.\<close>

definition rsplit2_first :: "string \<Rightarrow> string" where
  "rsplit2_first s =
     (let parts = split_on CHR ''-'' s
      in join ''-'' (take (if length parts \<ge> 3 then length parts - 2 else 1) parts))"

text \<open>\<^verbatim>\<open>sorted(list(weak_specs))\<close> of a set of strings: ascending, without duplicates.\<close>

fun insert_sorted :: "string \<Rightarrow> string list \<Rightarrow> string list" where
  "insert_sorted x [] = [x]"
| "insert_sorted x (y # ys) =
     (if x = y then y # ys else if str_lt x y then x # y # ys else y # insert_sorted x ys)"

definition sorted_set :: "string list \<Rightarrow> string list" where
  "sorted_set xs = foldr insert_sorted xs []"

text \<open>
  \<^verbatim>\<open>_read_specs_from_package\<close>.  The parsers \<^verbatim>\<open>yaml.safe_load\<close> and
  \<^verbatim>\<open>json.loads\<close> are libraries; they are parameters, and return the dictionary of
  the document (empty for a document that is empty or \<^verbatim>\<open>null\<close>).
\<close>

definition read_specs_from_package ::
  "(string \<Rightarrow> (string \<times> string list) list) \<Rightarrow> (string \<Rightarrow> (string \<times> string list) list) \<Rightarrow>
   pkg_loc \<Rightarrow> string \<Rightarrow> (string \<times> string list) list" where
  "read_specs_from_package yaml_safe_load json_loads loc pkg_dist =
     (let specs =
            (case loc of
               Directory files \<Rightarrow>
                 (case files ''info/run_exports'' of
                    Some text \<Rightarrow> [(''weak'', map rstrip (readlines text))]
                  | None \<Rightarrow>
                      (case files ''info/run_exports.yaml'' of
                         Some y \<Rightarrow> yaml_safe_load y
                       | None \<Rightarrow>
                           (case files ''info/run_exports.json'' of
                              Some j \<Rightarrow> json_loads j
                            | None \<Rightarrow> [])))
             | _ \<Rightarrow> [])
      in
      if specs = [] then
        (case loc of
           PkgFile files \<Rightarrow>
             (let specs_yaml = files ''info/run_exports.yaml'';
                  specs_json = files ''info/run_exports.json''
              in
              if specs_json \<noteq> None \<and> specs_json \<noteq> Some [] then json_loads (the specs_json)
              else if specs_yaml \<noteq> None \<and> specs_yaml \<noteq> Some [] then yaml_safe_load (the specs_yaml)
              else
                (let legacy_specs = files ''info/run_exports''
                 in if legacy_specs \<noteq> None \<and> legacy_specs \<noteq> Some [] then
                      [(''weak'',
                        sorted_set
                          (map rstrip
                             (filter (\<lambda>spec. \<not> startswith spec (rsplit2_first pkg_dist))
                                (splitlines (the legacy_specs)))))]
                    else specs))
         | _ \<Rightarrow> specs)
      else specs)"

text \<open>
  A package \<^verbatim>\<open>pkg-1.0-0\<close> that carries both a legacy file and a structured document.
\<close>

definition both_payloads :: "string \<rightharpoonup> string" where
  "both_payloads =
     [''info/run_exports'' \<mapsto> ''libfoo 1.0'' @ [CHR 0x0A] @ ''pkg 1.0'' @ [CHR 0x0A],
      ''info/run_exports.yaml'' \<mapsto> ''strong: [libbar]'']"

section \<open>Run-exports of the build environment in \<^verbatim>\<open>add_upstream_pins\<close>\<close>

lemma matching_output_index_less:
  "matching_output_index m = Some i \<Longrightarrow> i < length (meta_outputs m)"
proof -
  assume a: "matching_output_index m = Some i"
  let ?f = "filter (\<lambda>i. out_name (meta_outputs m ! i) = Some (pkg_name m)) [0..<length (meta_outputs m)]"
  from a obtain rest where "?f = i # rest"
    by (auto simp: matching_output_index_def split: list.splits)
  then have "i \<in> set ?f" by simp
  then show ?thesis by simp
qed

lemma requirements_var_set:
  "(\<And>i. out_idx = Some i \<Longrightarrow> i < length (meta_outputs m)) \<Longrightarrow>
     requirements_var (set_requirements_var m out_idx r) out_idx = r"
  by (cases out_idx) (auto simp: requirements_var_def set_requirements_var_def expand_reqs_def)

lemma extend_host_reqs_var:
  assumes "extend_host_reqs m strong = (m2, out_idx)"
  shows "requirements_var m2 out_idx =
           (requirements_var (m\<lparr>meta_requirements := (meta_requirements m)(''host'' \<mapsto> get_list (meta_requirements m) ''host'')\<rparr>) out_idx)
             (''host'' \<mapsto> get_list (requirements_var m out_idx) ''host'' @ strong)"
proof -
  let ?m1 = "m\<lparr>meta_requirements := (meta_requirements m)(''host'' \<mapsto> get_list (meta_requirements m) ''host'')\<rparr>"
  have al: "out_idx = (if get_list (meta_requirements m) ''host'' = [] then matching_output_index ?m1 else None)"
    using assms by (simp add: extend_host_reqs_def Let_def)
  have less: "i < length (meta_outputs ?m1)" if "out_idx = Some i" for i
    using that al matching_output_index_less[of ?m1 i] by (simp split: if_splits)
  have h: "get_list (requirements_var ?m1 out_idx) ''host'' = get_list (requirements_var m out_idx) ''host''"
    by (cases out_idx) (simp_all add: requirements_var_def get_list_def)
  have "m2 = set_requirements_var ?m1 out_idx
               ((requirements_var ?m1 out_idx)(''host'' \<mapsto> get_list (requirements_var ?m1 out_idx) ''host'' @ strong))"
    using assms al by (simp add: extend_host_reqs_def Let_def)
  then show ?thesis using requirements_var_set[of out_idx ?m1, OF less] h by simp
qed

lemma extend_host_reqs_host:
  assumes "extend_host_reqs m strong = (m2, out_idx)"
  shows "get_list (requirements_var m2 out_idx) ''host'' = get_list (requirements_var m out_idx) ''host'' @ strong"
  using extend_host_reqs_var[OF assms] by (simp add: get_list_def)

lemma extend_host_reqs_run:
  assumes "extend_host_reqs m strong = (m2, out_idx)"
  shows "get_list (requirements_var m2 out_idx) ''run'' = get_list (requirements_var m out_idx) ''run''"
  using extend_host_reqs_var[OF assms] by (cases out_idx) (simp_all add: get_list_def requirements_var_def)

lemma store_deps_run:
  "set (get_list (meta_requirements (store_deps m out_idx bdeps hdeps extra_run extra_rc)) ''run'')
     = set extra_run \<union> set (get_list (requirements_var m out_idx) ''run'')"
  by (auto simp: store_deps_def Let_def store_section_def py_set_def get_list_def)


text \<open>
  C1, as amended.  Let \<^verbatim>\<open>add_upstream_pins\<close> return for a job that is neither
  \<^verbatim>\<open>noarch\<close> nor \<^verbatim>\<open>noarch_python\<close>, and let \<open>from_build\<close> be the run-exports
  that the propagator collected from the explicitly required build dependencies.  Then
  every strong spec of \<open>from_build\<close> is in the run requirements.  When cross-compiling,
  the strong specs are appended to the host requirements, the host environment is
  resolved on the job so changed, and the run requirements are the strong and weak
  exports of the host environment, the strong exports of the build environment and
  the run requirements there were.  When not cross-compiling, the run requirements are
  the strong exports of the build environment and the run requirements there were,
  and the weak exports of the build environment exactly when the build environment is
  also the host environment.
\<close>

theorem add_upstream_pins_run_exports:
  assumes ok: "add_upstream_pins ex m permit exclude_pattern extra_specs = Inr (m', build_unsat, host_unsat)"
    and b: "read_upstream_pin_files ex m ''build'' permit exclude_pattern
              (if is_cross m then [] else extra_specs) = Inr (build_deps, unsat, from_build)"
    and na: "\<not> noarch m" "\<not> noarch_python m"
  shows "set (lookup_vals from_build ''strong'') \<subseteq> set (get_list (meta_requirements m') ''run'') \<and>
         (is_cross m \<longrightarrow>
            (\<exists>m2 out_idx host_deps unsat2 from_host.
               extend_host_reqs m (lookup_vals from_build ''strong'') = (m2, out_idx) \<and>
               get_list (requirements_var m2 out_idx) ''host''
                 = get_list (requirements_var m out_idx) ''host'' @ lookup_vals from_build ''strong'' \<and>
               read_upstream_pin_files ex m2 ''host'' permit exclude_pattern extra_specs
                 = Inr (host_deps, unsat2, from_host) \<and>
               set (get_list (meta_requirements m') ''run'')
                 = set (lookup_vals from_host ''strong'') \<union> set (lookup_vals from_host ''weak'')
                   \<union> set (lookup_vals from_build ''strong'')
                   \<union> set (get_list (requirements_var m out_idx) ''run''))) \<and>
         (\<not> is_cross m \<and> build_is_host m \<longrightarrow>
            set (get_list (meta_requirements m') ''run'')
              = set (lookup_vals from_build ''strong'') \<union> set (lookup_vals from_build ''weak'')
                \<union> set (get_list (meta_requirements m) ''run'')) \<and>
         (\<not> is_cross m \<and> \<not> build_is_host m \<longrightarrow>
            set (get_list (meta_requirements m') ''run'')
              = set (lookup_vals from_build ''strong'')
                \<union> set (get_list (meta_requirements m) ''run''))"
proof (cases "is_cross m")
  case True
  obtain m2 out_idx where e: "extend_host_reqs m (lookup_vals from_build ''strong'') = (m2, out_idx)"
    by (cases "extend_host_reqs m (lookup_vals from_build ''strong'')")
  from ok b True e obtain host_deps unsat2 from_host where
    h: "read_upstream_pin_files ex m2 ''host'' permit exclude_pattern extra_specs
          = Inr (host_deps, unsat2, from_host)"
    by (auto simp: add_upstream_pins_def split: sum.splits)
  from ok b True e h na have m': "m' = store_deps m2 out_idx (Some build_deps) host_deps
        (py_set (lookup_vals from_host ''strong'' @ lookup_vals from_host ''weak''
                  @ lookup_vals from_build ''strong'')) 
        (py_set (lookup_vals from_host ''strong_constrains''
                  @ lookup_vals from_host ''weak_constrains''
                  @ lookup_vals from_build ''strong_constrains''))"
    by (simp add: add_upstream_pins_def)
  have run: "set (get_list (meta_requirements m') ''run'')
                 = set (lookup_vals from_host ''strong'') \<union> set (lookup_vals from_host ''weak'')
                   \<union> set (lookup_vals from_build ''strong'')
                   \<union> set (get_list (requirements_var m out_idx) ''run'')"
    unfolding m' store_deps_run extend_host_reqs_run[OF e] by (auto simp: py_set_def)
  from True e h run extend_host_reqs_host[OF e] show ?thesis by blast
next
  case False
  show ?thesis
  proof (cases "build_is_host m")
    case True
    from ok b False True na have "m' = store_deps m None None []
        (py_set (lookup_vals from_build ''strong'' @ lookup_vals from_build ''weak''))
        (py_set (lookup_vals from_build ''strong_constrains'' @ lookup_vals from_build ''weak_constrains''))"
      by (simp add: add_upstream_pins_def)
    then have "set (get_list (meta_requirements m') ''run'')
              = set (lookup_vals from_build ''strong'') \<union> set (lookup_vals from_build ''weak'')
                \<union> set (get_list (meta_requirements m) ''run'')"
      by (simp add: store_deps_run py_set_def requirements_var_def)
    with False True show ?thesis by blast
  next
    case nb: False
    from ok b False nb na have "m' = store_deps m None (Some build_deps)
        (py_set (lookup_vals from_build ''strong''))
        (py_set (lookup_vals from_build ''strong''))
        (py_set (lookup_vals from_build ''strong_constrains''))"
      by (simp add: add_upstream_pins_def)
    then have "set (get_list (meta_requirements m') ''run'')
              = set (lookup_vals from_build ''strong'')
                \<union> set (get_list (meta_requirements m) ''run'')"
      by (simp add: store_deps_run py_set_def requirements_var_def)
    with False nb show ?thesis by blast
  qed
qed

lemma gcc_cross_build:
  "read_upstream_pin_files gcc_ext gcc_cross_job ''build'' False None []
     = Inr ([''gcc 9.3 h0''], None, [(''weak'', [''libgcc'']), (''strong'', [''libstdcxx''])])"
  by code_simp

lemma gcc_cross_returns:
  "(case add_upstream_pins gcc_ext gcc_cross_job False None [] of
      Inr (m', bu, hu) \<Rightarrow> True | Inl e \<Rightarrow> False)"
  by code_simp

text \<open>The theorem at the cross-compiling job: the strong export reaches \<open>run\<close>.\<close>

theorem add_upstream_pins_run_exports_witness:
  "\<exists>m' bu hu. add_upstream_pins gcc_ext gcc_cross_job False None [] = Inr (m', bu, hu) \<and>
      ''libstdcxx'' \<in> set (get_list (meta_requirements m') ''run'')"
proof -
  obtain m' bu hu where ok: "add_upstream_pins gcc_ext gcc_cross_job False None [] = Inr (m', bu, hu)"
    using gcc_cross_returns by (cases "add_upstream_pins gcc_ext gcc_cross_job False None []") auto
  have c: "is_cross gcc_cross_job" by (simp add: gcc_cross_job_def)
  have b: "read_upstream_pin_files gcc_ext gcc_cross_job ''build'' False None
             (if is_cross gcc_cross_job then [] else [])
           = Inr ([''gcc 9.3 h0''], None, [(''weak'', [''libgcc'']), (''strong'', [''libstdcxx''])])"
    using gcc_cross_build by simp
  have na: "\<not> noarch gcc_cross_job" "\<not> noarch_python gcc_cross_job"
    by (simp_all add: gcc_cross_job_def gcc_job_def)
  from add_upstream_pins_run_exports[OF ok b na]
  have "set (lookup_vals [(''weak'', [''libgcc'']), (''strong'', [''libstdcxx''])] ''strong'')
          \<subseteq> set (get_list (meta_requirements m') ''run'')" by blast
  then have "''libstdcxx'' \<in> set (get_list (meta_requirements m') ''run'')"
    by (simp add: lookup_vals_def)
  with ok show ?thesis by blast
qed

text \<open>
  C1 as stated fails in two places.  For a \<^verbatim>\<open>noarch\<close> job that is cross-compiling,
  the strong export \<^verbatim>\<open>libstdcxx\<close> of the build dependency is not in the run
  requirements.  And the strong exports are put after the host requirements, not
  before them.
\<close>

lemma noarch_cross_run:
  "(case add_upstream_pins gcc_ext (gcc_cross_job\<lparr>noarch := True\<rparr>) False None [] of
      Inr (m', bu, hu) \<Rightarrow> ''libstdcxx'' \<notin> set (get_list (meta_requirements m') ''run'')
    | Inl e \<Rightarrow> False)"
  by code_simp

lemma noarch_cross_build:
  "(case read_upstream_pin_files gcc_ext (gcc_cross_job\<lparr>noarch := True\<rparr>) ''build'' False None [] of
      Inr (deps, unsat, from_build) \<Rightarrow> ''libstdcxx'' \<in> set (lookup_vals from_build ''strong'')
    | Inl e \<Rightarrow> False)"
  by code_simp

lemma cross_host_appended:
  "(case extend_host_reqs gcc_cross_job [''libstdcxx''] of
      (m2, out_idx) \<Rightarrow> get_list (requirements_var m2 out_idx) ''host'' = [''zlib'', ''libstdcxx''])"
  by code_simp

theorem add_upstream_pins_run_exports_counterexample:
  "(case read_upstream_pin_files gcc_ext (gcc_cross_job\<lparr>noarch := True\<rparr>) ''build'' False None [] of
      Inr (deps, unsat, from_build) \<Rightarrow> ''libstdcxx'' \<in> set (lookup_vals from_build ''strong'')
    | Inl e \<Rightarrow> False) \<and>
   (case add_upstream_pins gcc_ext (gcc_cross_job\<lparr>noarch := True\<rparr>) False None [] of
      Inr (m', bu, hu) \<Rightarrow> ''libstdcxx'' \<notin> set (get_list (meta_requirements m') ''run'')
    | Inl e \<Rightarrow> False) \<and>
   (case extend_host_reqs gcc_cross_job [''libstdcxx''] of
      (m2, out_idx) \<Rightarrow> get_list (requirements_var m2 out_idx) ''host'' = [''zlib'', ''libstdcxx''])"
  using noarch_cross_build noarch_cross_run cross_host_appended by (intro conjI)

section \<open>The build section when the build environment is also the host\<close>

text \<open>
  C2.  The claim is that, when not cross-compiling and with \<^verbatim>\<open>build_is_host\<close>, the
  weak (for noarch jobs: the noarch) run-exports of the build dependencies are folded
  into the build section along with the resolved build dependencies.  In the source
  \<^verbatim>\<open>build_deps\<close> becomes the result of \<^verbatim>\<open>set.update\<close>, which is
  \<^verbatim>\<open>None\<close>, so the loop at the end stores nothing: the build section stays as it
  was.
\<close>

theorem add_upstream_pins_build_is_host:
  assumes "add_upstream_pins ex m permit exclude_pattern extra_specs = Inr (m', build_unsat, host_unsat)"
    and "\<not> is_cross m" and "build_is_host m"
  shows "meta_requirements m' ''build'' = meta_requirements m ''build''"
proof -
  from assms obtain er erc where "m' = store_deps m None None [] er erc"
    by (auto simp: add_upstream_pins_def Let_def split: sum.splits)
  then show ?thesis
    by (simp add: store_deps_def Let_def store_section_def requirements_var_def
        set_requirements_var_def)
qed

lemma gcc_job_build:
  "read_upstream_pin_files gcc_ext gcc_job ''build'' False None []
     = Inr ([''gcc 9.3 h0''], None, [(''weak'', [''libgcc'']), (''strong'', [''libstdcxx''])])"
  by code_simp

lemma gcc_job_returns:
  "(case add_upstream_pins gcc_ext gcc_job False None [] of
      Inr (m', bu, hu) \<Rightarrow> True | Inl e \<Rightarrow> False)"
  by code_simp

text \<open>
  At the job that requires \<^verbatim>\<open>gcc\<close>: the build environment resolves to
  \<^verbatim>\<open>gcc 9.3 h0\<close> with the weak export \<^verbatim>\<open>libgcc\<close>, and the build section is still
  \<^verbatim>\<open>["gcc"]\<close>.
\<close>

theorem add_upstream_pins_build_is_host_witness:
  "read_upstream_pin_files gcc_ext gcc_job ''build'' False None []
     = Inr ([''gcc 9.3 h0''], None, [(''weak'', [''libgcc'']), (''strong'', [''libstdcxx''])]) \<and>
   (\<exists>m' bu hu. add_upstream_pins gcc_ext gcc_job False None [] = Inr (m', bu, hu) \<and>
      meta_requirements m' ''build'' = Some [''gcc''])"
proof -
  obtain m' bu hu where ok: "add_upstream_pins gcc_ext gcc_job False None [] = Inr (m', bu, hu)"
    using gcc_job_returns by (cases "add_upstream_pins gcc_ext gcc_job False None []") auto
  have c: "\<not> is_cross gcc_job" "build_is_host gcc_job" by (simp_all add: gcc_job_def)
  from add_upstream_pins_build_is_host[OF ok c]
  have "meta_requirements m' ''build'' = Some [''gcc'']" by (simp add: gcc_job_def)
  with ok gcc_job_build show ?thesis by blast
qed

section \<open>Pin expressions: the two examples\<close>

text \<open>
  C3, as amended.  \<^verbatim>\<open>_increment\<close> appends \<^verbatim>\<open>.0a0\<close> to the incremented last
  place of the upper bound, so the two examples evaluate to
  \<^verbatim>\<open>>=1.2,<1.3.0a0\<close> and \<^verbatim>\<open>>=1.2.3,<1.2.4.0a0\<close>.
\<close>

lemma pin_example_xx: "apply_pin_expressions ''1.2.3'' ''x.x'' ''x.x'' = Inr ''>=1.2,<1.3.0a0''"
  by code_simp

lemma pin_example_xxx:
  "apply_pin_expressions ''1.2.3'' ''x.x.x'' ''x.x.x'' = Inr ''>=1.2.3,<1.2.4.0a0''"
  by code_simp

theorem apply_pin_expressions_examples:
  "apply_pin_expressions ''1.2.3'' ''x.x'' ''x.x'' = Inr ''>=1.2,<1.3.0a0'' \<and>
   apply_pin_expressions ''1.2.3'' ''x.x.x'' ''x.x.x'' = Inr ''>=1.2.3,<1.2.4.0a0''"
  using pin_example_xx pin_example_xxx by (intro conjI)

text \<open>C3 as stated fails: the first example does not return \<^verbatim>\<open>>=1.2,<1.3\<close>.\<close>

theorem apply_pin_expressions_examples_counterexample:
  "apply_pin_expressions ''1.2.3'' ''x.x'' ''x.x'' \<noteq> Inr ''>=1.2,<1.3''"
  by (simp add: pin_example_xx)

section \<open>The exact-pin simplifier: grouping, conflicts and what is kept\<close>

lemma collect_deps_fold:
  "collect_deps acc deps =
     (if \<exists>d \<in> set deps. spec_parts d = [] then Inl IndexError
      else Inr (foldl (\<lambda>a d. dict_append a (hd (spec_parts d)) (tl (spec_parts d))) acc deps))"
  by (induction deps arbitrary: acc) (auto simp: spec_parts_def split: list.splits)

lemma keys_dict_append: "map fst (dict_append d k v) = add_new (map fst d) k"
  by (induction d) (force simp: add_new_def)+

lemma keys_fold:
  "map fst (foldl (\<lambda>a d. dict_append a (f d) (g d)) acc deps) = foldl add_new (map fst acc) (map f deps)"
  by (induction deps arbitrary: acc) (auto simp: keys_dict_append)

lemma distinct_add_new: "distinct xs \<Longrightarrow> distinct (add_new xs x)"
  by (auto simp: add_new_def)

lemma distinct_foldl_add_new: "distinct acc \<Longrightarrow> distinct (foldl add_new acc xs)"
  by (induction xs arbitrary: acc) (auto simp: distinct_add_new)

lemma set_foldl_add_new: "set (foldl add_new acc xs) = set acc \<union> set xs"
  by (induction xs arbitrary: acc) (auto simp: add_new_def)

lemma lookup_dict_append:
  "lookup_vals (dict_append d k v) k' = (if k' = k then lookup_vals d k @ [v] else lookup_vals d k')"
  by (induction d) (auto simp: lookup_vals_def)

lemma lookup_vals_Nil: "lookup_vals [] n = []"
  by (simp add: lookup_vals_def)

lemma lookup_fold:
  "lookup_vals (foldl (\<lambda>a d. dict_append a (f d) (g d)) acc deps) n
     = lookup_vals acc n @ map g (filter (\<lambda>d. f d = n) deps)"
  by (induction deps arbitrary: acc) (auto simp: lookup_dict_append)

lemma simplify_name_cases:
  "simplify_name name vals =
     (if conflicting vals then Inl ValueError else Inr (simplified name vals))"
proof -
  let ?ex = "filter is_exact_pin vals"
  have conf: "conflicting vals \<longleftrightarrow> ?ex \<noteq> [] \<and> \<not> list_all (\<lambda>pin. pin = hd ?ex) ?ex"
  proof
    assume "conflicting vals"
    then obtain d d' where dd: "d \<in> set ?ex" "d' \<in> set ?ex" "d \<noteq> d'"
      by (auto simp: conflicting_def list_ex_iff)
    then have "?ex \<noteq> []" by (auto simp: filter_empty_conv)
    moreover have "\<not> list_all (\<lambda>pin. pin = hd ?ex) ?ex"
      using dd by (metis (mono_tags, lifting) list_all_iff)
    ultimately show "?ex \<noteq> [] \<and> \<not> list_all (\<lambda>pin. pin = hd ?ex) ?ex" by simp
  next
    assume a: "?ex \<noteq> [] \<and> \<not> list_all (\<lambda>pin. pin = hd ?ex) ?ex"
    then obtain d where d: "d \<in> set ?ex" "d \<noteq> hd ?ex" by (auto simp: list_all_iff)
    have ne: "?ex \<noteq> []" using a by simp
    have h: "hd ?ex \<in> set vals \<and> is_exact_pin (hd ?ex)"
      using hd_in_set[OF ne] unfolding set_filter by blast
    have dd: "d \<in> set vals \<and> is_exact_pin d"
      using d(1) unfolding set_filter by blast
    show "conflicting vals"
      unfolding conflicting_def list_ex_iff using h dd d(2) by blast
  qed
  have bare: "length vals = 1 \<and> \<not> list_ex (\<lambda>d. d \<noteq> []) vals \<longleftrightarrow> vals = [[]]"
    by (cases vals) (auto simp: list_ex_iff)
  have nb: "vals = [[]] \<Longrightarrow> \<not> conflicting vals" by (auto simp: conflicting_def is_exact_pin_def)
  show ?thesis
    unfolding simplify_name_def Let_def bare simplified_def using conf nb
    by (auto split: list.splits)
qed

lemma simplify_names_cases:
  "simplify_names d =
     (if \<exists>(n, vs) \<in> set d. conflicting vs then Inl ValueError
      else Inr (concat (map (\<lambda>(n, vs). simplified n vs) d)))"
  by (induction d) (auto simp: simplify_name_cases)

lemma map_pairs_lookup:
  "distinct (map fst d) \<Longrightarrow>
     map (\<lambda>(n, vs). F n vs) d = map (\<lambda>n. F n (lookup_vals d n)) (map fst d)"
proof (induction d)
  case Nil
  then show ?case by simp
next
  case (Cons p d)
  obtain a b where p: "p = (a, b)" by (cases p)
  have "map (\<lambda>n. F n (lookup_vals (p # d) n)) (map fst d)
          = map (\<lambda>n. F n (lookup_vals d n)) (map fst d)"
    by (rule map_cong) (use Cons.prems p in \<open>auto simp: lookup_vals_def\<close>)
  with Cons p show ?case by (simp add: lookup_vals_def)
qed

lemma ex_pairs_lookup:
  assumes "distinct (map fst d)"
  shows "(\<exists>(n, vs) \<in> set d. P vs) \<longleftrightarrow> (\<exists>n \<in> set (map fst d). P (lookup_vals d n))"
proof
  assume "\<exists>(n, vs) \<in> set d. P vs"
  then obtain n vs where nv: "(n, vs) \<in> set d" "P vs" by blast
  then have "map_of d n = Some vs" using assms by simp
  then have "lookup_vals d n = vs" by (simp add: lookup_vals_def)
  moreover have "n \<in> set (map fst d)" using nv(1) by force
  ultimately show "\<exists>n \<in> set (map fst d). P (lookup_vals d n)" using nv(2) by blast
next
  assume "\<exists>n \<in> set (map fst d). P (lookup_vals d n)"
  then obtain n where n: "n \<in> set (map fst d)" "P (lookup_vals d n)" by blast
  then obtain vs where vs: "(n, vs) \<in> set d" by force
  then have "map_of d n = Some vs" using assms by simp
  then have "lookup_vals d n = vs" by (simp add: lookup_vals_def)
  with n(2) vs show "\<exists>(n, vs) \<in> set d. P vs" by blast
qed

lemma occurrences_not_name:
  "n \<notin> set (dep_names deps) \<Longrightarrow> occurrences n deps = []"
  by (auto simp: dep_names_def first_occurrences_def set_foldl_add_new occurrences_def filter_empty_conv)

lemma not_conflicting_Nil: "\<not> conflicting []"
  by (simp add: conflicting_def)

lemma simplify_deps_cases:
  "simplify_deps deps =
     (if \<exists>d. d \<in> set deps \<and> spec_parts d = [] then Inl IndexError
      else if \<exists>name. conflicting (occurrences name deps) then Inl ValueError
      else Inr (concat (map (\<lambda>name. simplified name (occurrences name deps)) (dep_names deps))))"
proof (cases "\<exists>d \<in> set deps. spec_parts d = []")
  case True
  then show ?thesis by (auto simp: simplify_deps_def collect_deps_fold)
next
  case False
  define d where "d = foldl (\<lambda>a d. dict_append a (hd (spec_parts d)) (tl (spec_parts d))) [] deps"
  have keys: "map fst d = dep_names deps"
    by (simp add: d_def keys_fold dep_names_def first_occurrences_def)
  have dist: "distinct (map fst d)"
    by (simp add: d_def keys_fold distinct_foldl_add_new)
  have look: "lookup_vals d n = occurrences n deps" for n
    by (simp add: d_def lookup_fold occurrences_def lookup_vals_Nil)
  have conf: "(\<exists>(n, vs) \<in> set d. conflicting vs) \<longleftrightarrow> (\<exists>name. conflicting (occurrences name deps))"
  proof -
    have "(\<exists>(n, vs) \<in> set d. conflicting vs) \<longleftrightarrow> (\<exists>n \<in> set (dep_names deps). conflicting (occurrences n deps))"
      using ex_pairs_lookup[OF dist, of conflicting] by (simp add: keys look)
    also have "\<dots> \<longleftrightarrow> (\<exists>name. conflicting (occurrences name deps))"
      using occurrences_not_name not_conflicting_Nil by metis
    finally show ?thesis .
  qed
  have out: "concat (map (\<lambda>(n, vs). simplified n vs) d)
               = concat (map (\<lambda>name. simplified name (occurrences name deps)) (dep_names deps))"
    using map_pairs_lookup[OF dist, of simplified] by (simp add: keys look)
  have "simplify_deps deps = simplify_names d"
    using False by (simp add: simplify_deps_def collect_deps_fold d_def)
  then show ?thesis using False conf out by (simp add: simplify_names_cases)
qed

text \<open>The sections are simplified one after the other; none reads what another wrote.\<close>

lemma simplify_section_other:
  "simplify_section r a = Inr r1 \<Longrightarrow> s \<noteq> a \<Longrightarrow> r1 s = r s"
  by (auto simp: simplify_section_def split: sum.splits if_splits)

lemma simplify_sections_other:
  "simplify_sections ss r = Inr r' \<Longrightarrow> s \<notin> set ss \<Longrightarrow> r' s = r s"
proof (induction ss arbitrary: r)
  case Nil
  then show ?case by simp
next
  case (Cons a ss)
  from Cons.prems(1) obtain r1 where r1: "simplify_section r a = Inr r1" "simplify_sections ss r1 = Inr r'"
    by (auto split: sum.splits)
  have "r' s = r1 s" using Cons.IH[OF r1(2)] Cons.prems(2) by simp
  moreover have "r1 s = r s" using simplify_section_other[OF r1(1)] Cons.prems(2) by simp
  ultimately show ?case by simp
qed

lemma simplify_section_at:
  assumes "simplify_section r a = Inr r1"
  shows "\<exists>out. simplify_deps (get_list r a) = Inr out \<and>
           r1 a = (if a \<in> dom r \<and> out \<noteq> [] then Some out else r a)"
proof (cases "simplify_deps (get_list r a)")
  case (Inl e)
  with assms show ?thesis by (simp add: simplify_section_def)
next
  case (Inr out)
  with assms have "r1 = (if a \<in> dom r \<and> out \<noteq> [] then r(a \<mapsto> out) else r)"
    by (simp add: simplify_section_def)
  then have "r1 a = (if a \<in> dom r \<and> out \<noteq> [] then Some out else r a)"
    by simp
  with Inr show ?thesis by blast
qed

lemma simplify_sections_at:
  "simplify_sections ss r = Inr r' \<Longrightarrow> distinct ss \<Longrightarrow> s \<in> set ss \<Longrightarrow>
     \<exists>out. simplify_deps (get_list r s) = Inr out \<and>
           r' s = (if s \<in> dom r \<and> out \<noteq> [] then Some out else r s)"
proof (induction ss arbitrary: r)
  case Nil
  then show ?case by simp
next
  case (Cons a ss)
  from Cons.prems(1) obtain r1 where r1: "simplify_section r a = Inr r1" "simplify_sections ss r1 = Inr r'"
    by (auto split: sum.splits)
  show ?case
  proof (cases "s = a")
    case True
    have "a \<notin> set ss" using Cons.prems(2) by simp
    then have e: "r' a = r1 a" using simplify_sections_other[OF r1(2)] by simp
    from simplify_section_at[OF r1(1)] show ?thesis unfolding True e .
  next
    case False
    then have s: "s \<in> set ss" using Cons.prems(3) by simp
    have same: "r1 s = r s" using simplify_section_other[OF r1(1) False] .
    have d: "distinct ss" using Cons.prems(2) by simp
    have g: "get_list r1 s = get_list r s" by (simp add: get_list_def same)
    have m: "(s \<in> dom r1) = (s \<in> dom r)" by (simp add: domIff same)
    from Cons.IH[OF r1(2) d s] show ?thesis unfolding g m same .
  qed
qed

lemma simplify_sections_fail:
  "distinct ss \<Longrightarrow> s \<in> set ss \<Longrightarrow> simplify_deps (get_list r s) = Inl e \<Longrightarrow>
     \<exists>e'. simplify_sections ss r = Inl e'"
proof (induction ss arbitrary: r)
  case Nil
  then show ?case by simp
next
  case (Cons a ss)
  show ?case
  proof (cases "simplify_section r a")
    case (Inl e1)
    then show ?thesis by simp
  next
    case (Inr r1)
    then have a: "s \<noteq> a" using Cons.prems(3) by (auto simp: simplify_section_def)
    then have s: "s \<in> set ss" using Cons.prems(2) by simp
    have "r1 s = r s" using simplify_section_other[OF Inr a] .
    then have "simplify_deps (get_list r1 s) = Inl e" using Cons.prems(3) by (simp add: get_list_def)
    from Cons.IH[OF _ s this] Cons.prems(1) Inr show ?thesis by simp
  qed
qed

text \<open>
  C5, as amended.  Each of the sections \<open>build\<close>, \<open>host\<close> and \<open>run\<close> is simplified
  from its own specs alone.  The specs (after \<open>ensure_valid_spec\<close>, split at blanks)
  are grouped by name.  When two exact occurrences of one name differ, the call raises.
  When it returns, the section holds, for each name in the order of its first
  occurrence: the bare name for a single occurrence with nothing after the name; else,
  when at least one occurrence is exact, that one exact spec and nothing else of the
  name; else every occurrence with something after the name, its parts joined by one
  blank.  A section for which this list is empty is left as it was.
\<close>

theorem simplify_to_exact_constraints_sections:
  assumes "s \<in> set [''build'', ''host'', ''run'']"
    and "requirements s = Some deps"
  shows "((\<exists>name. conflicting (occurrences name deps)) \<longrightarrow>
            (\<exists>e. simplify_to_exact_constraints requirements = Inl e)) \<and>
         (\<forall>r'. simplify_to_exact_constraints requirements = Inr r' \<longrightarrow>
            r' s = Some (let out = concat (map (\<lambda>name. simplified name (occurrences name deps))
                                            (dep_names deps))
                         in if out = [] then deps else out))"
proof -
  have dist: "distinct [''build'', ''host'', ''run'']" by simp
  have gl: "get_list requirements s = deps" using assms(2) by (simp add: get_list_def)
  have dom: "s \<in> dom requirements" using assms(2) by auto
  have fail: "\<exists>e. simplify_to_exact_constraints requirements = Inl e"
    if "\<exists>name. conflicting (occurrences name deps)"
  proof -
    from that have "\<exists>e. simplify_deps deps = Inl e" by (simp add: simplify_deps_cases)
    then obtain e where "simplify_deps (get_list requirements s) = Inl e" using gl by auto
    from simplify_sections_fail[OF dist assms(1) this] show ?thesis
      by (simp add: simplify_to_exact_constraints_def)
  qed
  have ok: "r' s = Some (let out = concat (map (\<lambda>name. simplified name (occurrences name deps))
                                            (dep_names deps))
                         in if out = [] then deps else out)"
    if "simplify_to_exact_constraints requirements = Inr r'" for r'
  proof -
    from that have "simplify_sections [''build'', ''host'', ''run''] requirements = Inr r'"
      by (simp add: simplify_to_exact_constraints_def)
    from simplify_sections_at[OF this dist assms(1)] obtain out where
      out: "simplify_deps deps = Inr out" "r' s = (if out \<noteq> [] then Some out else Some deps)"
      using gl dom assms(2) by auto
    from out(1) have "out = concat (map (\<lambda>name. simplified name (occurrences name deps)) (dep_names deps))"
      by (simp add: simplify_deps_cases split: if_splits)
    with out(2) show ?thesis by (simp add: Let_def)
  qed
  from fail ok show ?thesis by blast
qed

lemma ex_agree: "simplify_deps [''foo 1.0 0'', ''foo 1.0 0''] = Inr [''foo 1.0 0'']"
  by code_simp

lemma ex_conflict: "simplify_deps [''foo 1.0 0'', ''foo 1.0 1''] = Inl ValueError"
  by code_simp

lemma simplify_deps_Nil: "simplify_deps [] = Inr []"
  by (simp add: simplify_deps_def)

lemma ex_agree_sections:
  "simplify_to_exact_constraints [''run'' \<mapsto> [''foo 1.0 0'', ''foo 1.0 0'']]
     = Inr [''run'' \<mapsto> [''foo 1.0 0'']]"
  by (simp add: simplify_to_exact_constraints_def simplify_section_def get_list_def ex_agree simplify_deps_Nil)

lemma ex_conflict_sections:
  "simplify_to_exact_constraints [''run'' \<mapsto> [''foo 1.0 0'', ''foo 1.0 1'']] = Inl ValueError"
  by (simp add: simplify_to_exact_constraints_def simplify_section_def get_list_def ex_conflict simplify_deps_Nil)

text \<open>
  The two examples of C5 through the theorem: two equal exact specs come to one, and
  two exact specs that differ are a conflict.
\<close>

theorem simplify_to_exact_constraints_sections_witness:
  "(\<exists>r'. simplify_to_exact_constraints [''run'' \<mapsto> [''foo 1.0 0'', ''foo 1.0 0'']] = Inr r' \<and>
         r' ''run'' = Some [''foo 1.0 0'']) \<and>
   (\<exists>e. simplify_to_exact_constraints [''run'' \<mapsto> [''foo 1.0 0'', ''foo 1.0 1'']] = Inl e)"
proof -
  have s: "''run'' \<in> set [''build'', ''host'', ''run'']" by simp
  have r1: "([''run'' \<mapsto> [''foo 1.0 0'', ''foo 1.0 0'']] :: requirements) ''run''
              = Some [''foo 1.0 0'', ''foo 1.0 0'']" by simp
  have r2: "([''run'' \<mapsto> [''foo 1.0 0'', ''foo 1.0 1'']] :: requirements) ''run''
              = Some [''foo 1.0 0'', ''foo 1.0 1'']" by simp
  have c: "conflicting (occurrences ''foo'' [''foo 1.0 0'', ''foo 1.0 1''])" by code_simp
  have o: "concat (map (\<lambda>name. simplified name (occurrences name [''foo 1.0 0'', ''foo 1.0 0'']))
             (dep_names [''foo 1.0 0'', ''foo 1.0 0''])) = [''foo 1.0 0'']" by code_simp
  note t1 = simplify_to_exact_constraints_sections
       [where s = "''run''" and requirements = "[''run'' \<mapsto> [''foo 1.0 0'', ''foo 1.0 0'']]"
          and deps = "[''foo 1.0 0'', ''foo 1.0 0'']", OF s r1]
  note t2 = simplify_to_exact_constraints_sections
       [where s = "''run''" and requirements = "[''run'' \<mapsto> [''foo 1.0 0'', ''foo 1.0 1'']]"
          and deps = "[''foo 1.0 0'', ''foo 1.0 1'']", OF s r2]
  from t1 have "\<forall>r'. simplify_to_exact_constraints [''run'' \<mapsto> [''foo 1.0 0'', ''foo 1.0 0'']] = Inr r' \<longrightarrow>
            r' ''run'' = Some [''foo 1.0 0'']"
    unfolding o Let_def by simp
  then have "\<exists>r'. simplify_to_exact_constraints [''run'' \<mapsto> [''foo 1.0 0'', ''foo 1.0 0'']] = Inr r' \<and>
         r' ''run'' = Some [''foo 1.0 0'']"
    using ex_agree_sections by blast
  moreover from t2 c
  have "\<exists>e. simplify_to_exact_constraints [''run'' \<mapsto> [''foo 1.0 0'', ''foo 1.0 1'']] = Inl e"
    by blast
  ultimately show ?thesis by (intro conjI)
qed

text \<open>
  C5 as stated fails where one occurrence of a name is exact and another is not: not
  every occurrence is exact and the name occurs twice, so the requirement keeps both
  qualified occurrences, and the code keeps the exact one only.
\<close>

lemma ex_mixed: "simplify_deps [''foo 1.0 0'', ''foo >=1.0''] = Inr [''foo 1.0 0'']"
  by code_simp

lemma ex_mixed_occurrences:
  "occurrences ''foo'' [''foo 1.0 0'', ''foo >=1.0''] = [[''1.0'', ''0''], [''>=1.0'']]"
  by code_simp

lemma ex_mixed_retained:
  "retained_unless_all_exact ''foo'' [[''1.0'', ''0''], [''>=1.0'']] = Inr [''foo 1.0 0'', ''foo >=1.0'']"
  by code_simp

theorem simplify_deps_counterexample:
  "simplify_deps [''foo 1.0 0'', ''foo >=1.0''] = Inr [''foo 1.0 0''] \<and>
   occurrences ''foo'' [''foo 1.0 0'', ''foo >=1.0''] = [[''1.0'', ''0''], [''>=1.0'']] \<and>
   retained_unless_all_exact ''foo'' [[''1.0'', ''0''], [''>=1.0'']] = Inr [''foo 1.0 0'', ''foo >=1.0'']"
  using ex_mixed ex_mixed_occurrences ex_mixed_retained by (intro conjI)

section \<open>The resolver on a failure of the solver\<close>

text \<open>
  C8.  When the solver, called by \<^verbatim>\<open>get_env_dependencies\<close>, raises
  \<^verbatim>\<open>UnsatisfiableError\<close> or \<^verbatim>\<open>DependencyNeedsBuildingError\<close>: with
  \<^verbatim>\<open>permit_unsatisfiable_variants\<close> the function returns an empty list of resolved
  records and a diagnostic that is not \<^verbatim>\<open>None\<close>; without it the exception
  propagates unchanged.
\<close>

theorem get_env_dependencies_solver_signal:
  assumes "env_categorized ex m env var exclude_pattern = Inr (subpackages, dependencies, pass_through_deps)"
    and "get_package_records ex env (set dependencies \<union> set extra_specs) = Inl e"
    and "solver_signal e"
  shows "(\<exists>specs msg. get_env_dependencies ex m env var exclude_pattern True extra_specs
              = Inr (specs, [], Some msg)) \<and>
         get_env_dependencies ex m env var exclude_pattern False extra_specs = Inl e"
  using assms by (simp add: get_env_dependencies_def env_result_def)

lemma unsat_categorized:
  "env_categorized unsat_ext gcc_job ''build'' [] None = Inr ([], [''gcc''], [])"
  by (simp add: env_categorized_def unsat_ext_def gcc_ext_def gcc_job_def get_list_def
      categorize_deps_def contains_def split_ws_def is_space_def)

text \<open>The theorem at a job whose build environment has no solution.\<close>

theorem get_env_dependencies_solver_signal_witness:
  "get_env_dependencies unsat_ext gcc_job ''build'' [] None True []
     = Inr ([''gcc''], [], Some ''nothing provides gcc'') \<and>
   get_env_dependencies unsat_ext gcc_job ''build'' [] None False []
     = Inl (UnsatisfiableError None ''nothing provides gcc'')"
proof -
  have s: "get_package_records unsat_ext ''build'' (set [''gcc''] \<union> set [])
             = Inl (UnsatisfiableError None ''nothing provides gcc'')"
    by (simp add: unsat_ext_def)
  have g: "solver_signal (UnsatisfiableError None ''nothing provides gcc'')"
    by (simp add: solver_signal_def)
  from get_env_dependencies_solver_signal[OF unsat_categorized s g]
  have "get_env_dependencies unsat_ext gcc_job ''build'' [] None False []
          = Inl (UnsatisfiableError None ''nothing provides gcc'')" by blast
  moreover have "get_env_dependencies unsat_ext gcc_job ''build'' [] None True []
     = Inr ([''gcc''], [], Some ''nothing provides gcc'')"
    using unsat_categorized s
    by (simp add: get_env_dependencies_def env_result_def unsat_message_def solver_signal_def
        gcc_job_def get_list_def)
  ultimately show ?thesis by (intro conjI)
qed

end
